theory Spec2Isabelle
  imports Main "HOL-Library.AList"
begin

section \<open>Self-signed certificate provisioning (\<^verbatim>\<open>mod.ts\<close>)\<close>

text \<open>
  The module exports one function, \<^verbatim>\<open>getSelfSignedCert\<close>, built on the private
  \<^verbatim>\<open>generateOutDirContents\<close>. Both only sequence calls into the host: path
  resolution (\<^verbatim>\<open>@std/path\<close>), the file system (\<^verbatim>\<open>@std/fs\<close>, \<^verbatim>\<open>Deno\<close>),
  one child process (\<^verbatim>\<open>Deno.Command\<close>) and the console. The two functions are
  translated statement by statement; the host is an explicit, executable model:
  an immutable environment (platform, working directory, behaviour of child
  processes) and a mutable world (a directory tree and the trace of host calls made).
  A function of the source becomes a function from the world to a result and the
  world it leaves behind; a thrown exception is the \<open>Inl\<close> side of the result.
\<close>

subsection \<open>JavaScript strings and numbers\<close>

text \<open>\<^verbatim>\<open>Array.prototype.join\<close> on an array of strings.\<close>

fun join :: "string \<Rightarrow> string list \<Rightarrow> string" where
  "join sep [] = []"
| "join sep [x] = x"
| "join sep (x # y # ys) = x @ sep @ join sep (y # ys)"

text \<open>The decimal digits of a natural number.\<close>

fun digits_of :: "nat \<Rightarrow> string" where
  "digits_of n =
     (if n < 10 then [''0123456789'' ! n]
      else digits_of (n div 10) @ [''0123456789'' ! (n mod 10)])"

declare digits_of.simps [simp del]

text \<open>
  A JavaScript number is an IEEE 754 double: not-a-number, an infinity with its
  sign, or a finite value \<open>\<plusminus> m \<times> 2\<^sup>e\<close> given by its sign (true for negative), a
  mantissa and an exponent. The doubles are the finite values that can be written
  with \<open>0 \<le> m < 2\<^sup>5\<^sup>3\<close> and \<open>-1074 \<le> e \<le> 971\<close>; a mantissa of 0 is the zero
  of either sign.
\<close>

datatype number = NaN | Infinity bool | Finite bool int int

text \<open>The number with an integer value, as a numeric literal or an exit code gives it.\<close>

definition number_of_int :: "int \<Rightarrow> number" where
  "number_of_int i = Finite (i < 0) \<bar>i\<bar> 0"

text \<open>
  \<^verbatim>\<open>Number::toString(x, 10)\<close> of ECMAScript, which \<^verbatim>\<open>String(x)\<close> and
  \<^verbatim>\<open>"..." + x\<close> apply to a number: the shortest decimal digits that read back
  as the same double, the closest to the value among the shortest (the even one of
  two equally close), laid out as an integer, a decimal fraction or in exponent
  notation. The digits are computed in exact integer arithmetic. First the
  value is written with a mantissa of 53 bits, or with the least exponent when it
  is too small for that; whichever way a double is written, the result is the same.
\<close>

function normalize :: "int \<Rightarrow> int \<Rightarrow> int \<times> int" where
  "normalize m e =
     (if (2 ^ 53 \<le> m \<or> e < - 1074) \<and> even m \<and> 0 < m then normalize (m div 2) (e + 1)
      else if m < 2 ^ 52 \<and> - 1074 < e then normalize (2 * m) (e - 1)
      else (m, e))"
  by pat_completeness auto
termination
  by (relation "measure (\<lambda>(m, e). if m < 2 ^ 52 \<and> - 1074 < e
                                     then 2 ^ 53 + nat (e + 1074) else nat m)")
     auto

declare normalize.simps [simp del]

text \<open>
  The value is \<open>r / s\<close>, and \<open>m_plus / s\<close>, \<open>m_minus / s\<close> are the distances to the
  midpoints towards the next double above and below; a decimal between the
  midpoints reads back as the double, the midpoints included when the mantissa is
  even (\<open>ok\<close>). \<open>scale_up\<close> and \<open>scale_down\<close> find the decimal exponent \<open>k\<close> with
  \<open>(r + m_plus) / s\<close> brought between 1/10 and 1.
\<close>

function scale_up :: "bool \<Rightarrow> int \<Rightarrow> int \<Rightarrow> int \<Rightarrow> int \<Rightarrow> int \<times> int" where
  "scale_up ok r s m_plus k =
     (if 0 < s \<and> (if ok then s \<le> r + m_plus else s < r + m_plus)
      then scale_up ok r (s * 10) m_plus (k + 1)
      else (s, k))"
  by pat_completeness auto
termination
  by (relation "measure (\<lambda>(ok, r, s, mp, k). nat (r + mp - s + 1))") (auto split: if_splits)

declare scale_up.simps [simp del]

function scale_down ::
    "bool \<Rightarrow> int \<Rightarrow> int \<Rightarrow> int \<Rightarrow> int \<Rightarrow> int \<Rightarrow> int \<times> int \<times> int \<times> int" where
  "scale_down ok r s m_plus m_minus k =
     (if 0 < r + m_plus
         \<and> (if ok then (r + m_plus) * 10 < s else (r + m_plus) * 10 \<le> s)
      then scale_down ok (r * 10) s (m_plus * 10) (m_minus * 10) (k - 1)
      else (r, m_plus, m_minus, k))"
  by pat_completeness auto
termination
  by (relation "measure (\<lambda>(ok, r, s, mp, mm, k). nat (s - (r + mp) * 10 + 1))")
     (auto split: if_splits)

declare scale_down.simps [simp del]

text \<open>
  The digits, one at a time, until what is left of the value is within reach of a
  midpoint; the last digit goes to the closer of the two candidates.
\<close>

function generate :: "bool \<Rightarrow> int \<Rightarrow> int \<Rightarrow> int \<Rightarrow> int \<Rightarrow> int list" where
  "generate ok r s m_plus m_minus =
     (let d = (r * 10) div s;
          r' = (r * 10) mod s;
          m_plus' = m_plus * 10;
          m_minus' = m_minus * 10;
          tc1 = (if ok then r' \<le> m_minus' else r' < m_minus');
          tc2 = (if ok then s \<le> r' + m_plus' else s < r' + m_plus')
      in if 0 < s \<and> 0 < m_plus \<and> \<not> tc1 \<and> \<not> tc2 then d # generate ok r' s m_plus' m_minus'
         else if tc1 \<and> \<not> tc2 then [d]
         else if tc2 \<and> \<not> tc1 then [d + 1]
         else if 2 * r' < s \<or> (2 * r' = s \<and> even d) then [d]
         else [d + 1])"
  by pat_completeness auto
termination
proof (relation "measure (\<lambda>(ok, r, s, mp, mm). nat (s - mp))", goal_cases)
  case 1
  then show ?case by simp
next
  case (2 ok r s mp mm d r' mp' mm' tc1 tc2)
  then have f: "0 < s" "0 < mp" "r' + mp' \<le> s" "mp' = mp * 10" "r' = r * 10 mod s"
    by (auto split: if_splits)
  have "0 \<le> r * 10 mod s" using f(1) by simp
  then have "mp * 10 \<le> s" using f by linarith
  then show ?case using f(2,4) by simp
qed

declare generate.simps [simp del]

text \<open>
  The digits \<open>ds\<close> and the exponent \<open>n\<close> of a positive value \<open>m \<times> 2\<^sup>e\<close>: the value
  is \<open>0.ds \<times> 10\<^sup>n\<close>. Below a power of two the next double is half as far away
  as the one above (\<open>wide\<close>).
\<close>

definition shortest_digits :: "int \<Rightarrow> int \<Rightarrow> int list \<times> int" where
  "shortest_digits m e =
     (case normalize m e of
        (M, E) \<Rightarrow>
          (let ok = even M;
               wide = (M = 2 ^ 52 \<and> - 1074 < E);
               r = (if 0 \<le> E then (if wide then M * 2 ^ nat (E + 1) * 2 else M * 2 ^ nat E * 2)
                    else (if wide then M * 4 else M * 2));
               s = (if 0 \<le> E then (if wide then 4 else 2)
                    else (if wide then 2 ^ nat (- E + 1) * 2 else 2 ^ nat (- E) * 2));
               m_plus = (if 0 \<le> E then (if wide then 2 ^ nat (E + 1) else 2 ^ nat E)
                         else (if wide then 2 else 1));
               m_minus = (if 0 \<le> E then 2 ^ nat E else 1)
           in case scale_up ok r s m_plus 0 of
                (s', k) \<Rightarrow>
                  (case scale_down ok r s' m_plus m_minus k of
                     (r', m_plus', m_minus', n) \<Rightarrow> (generate ok r' s' m_plus' m_minus', n))))"

definition digit_chars :: "int list \<Rightarrow> string" where
  "digit_chars ds = map (\<lambda>d. ''0123456789'' ! nat d) ds"

text \<open>
  The layout of \<open>k\<close> digits with exponent \<open>n\<close>: digits and zeros for
  \<open>k \<le> n \<le> 21\<close>, a decimal point inside the digits for \<open>0 < n \<le> 21\<close>, zeros after
  \<^verbatim>\<open>0.\<close> for \<open>-6 < n \<le> 0\<close>, and exponent notation otherwise.
\<close>

definition format_digits :: "string \<Rightarrow> int \<Rightarrow> string" where
  "format_digits ds n =
     (let k = int (length ds)
      in if k \<le> n \<and> n \<le> 21 then ds @ replicate (nat (n - k)) CHR ''0''
         else if 0 < n \<and> n \<le> 21 then take (nat n) ds @ ''.'' @ drop (nat n) ds
         else if - 6 < n \<and> n \<le> 0 then ''0.'' @ replicate (nat (- n)) CHR ''0'' @ ds
         else
           (let e = n - 1;
                sign = (if 0 < e then ''+'' else ''-'')
            in if k = 1 then ds @ ''e'' @ sign @ digits_of (nat \<bar>e\<bar>)
               else take 1 ds @ ''.'' @ drop 1 ds @ ''e'' @ sign @ digits_of (nat \<bar>e\<bar>)))"

definition Number_toString :: "number \<Rightarrow> string" where
  "Number_toString x =
     (case x of
        NaN \<Rightarrow> ''NaN''
      | Infinity negative \<Rightarrow> (if negative then ''-Infinity'' else ''Infinity'')
      | Finite negative m e \<Rightarrow>
          (if m = 0 then ''0''
           else (if negative then ''-'' else [])
                @ (case shortest_digits \<bar>m\<bar> e of
                     (ds, n) \<Rightarrow> format_digits (digit_chars ds) n)))"

text \<open>\<^verbatim>\<open>"..." + n\<close> for a number with an integer value, such as an exit code.\<close>

definition String_number :: "int \<Rightarrow> string" where
  "String_number i = Number_toString (number_of_int i)"

subsection \<open>Paths (\<^verbatim>\<open>@std/path\<close> on a POSIX host)\<close>

text \<open>
  A location in the directory tree is the list of names leading to it from the
  root. Path strings are split at \<^verbatim>\<open>/\<close>, normalised name by name (empty names
  and \<^verbatim>\<open>.\<close> vanish, \<^verbatim>\<open>..\<close> steps back) and rendered with a leading \<^verbatim>\<open>/\<close>.
\<close>

type_synonym location = "string list"

fun split_sep :: "char \<Rightarrow> string \<Rightarrow> string list" where
  "split_sep c [] = [[]]"
| "split_sep c (x # xs) =
     (if x = c then [] # split_sep c xs
      else (case split_sep c xs of [] \<Rightarrow> [[x]] | w # ws \<Rightarrow> (x # w) # ws))"

text \<open>
  \<^verbatim>\<open>normalizeString(path, allowAboveRoot, "/", ...)\<close>, on the names of the path;
  the names kept so far are accumulated in reverse.
\<close>

fun normalizeString :: "bool \<Rightarrow> string list \<Rightarrow> string list \<Rightarrow> string list" where
  "normalizeString allowAboveRoot acc [] = rev acc"
| "normalizeString allowAboveRoot acc (s # ss) =
     (if s = [] \<or> s = ''.'' then normalizeString allowAboveRoot acc ss
      else if s = ''..'' then
        (if acc \<noteq> [] \<and> hd acc \<noteq> ''..'' then normalizeString allowAboveRoot (tl acc) ss
         else if allowAboveRoot then normalizeString allowAboveRoot (s # acc) ss
         else normalizeString allowAboveRoot acc ss)
      else normalizeString allowAboveRoot (s # acc) ss)"

text \<open>
  The loop of \<^verbatim>\<open>resolve(...pathSegments)\<close>: the segments are visited from the
  last to the first, then the working directory, until the path collected so far
  is absolute; empty segments are skipped.
\<close>

fun resolve_loop :: "string list \<Rightarrow> string \<Rightarrow> bool \<Rightarrow> string \<times> bool" where
  "resolve_loop [] resolvedPath resolvedAbsolute = (resolvedPath, resolvedAbsolute)"
| "resolve_loop (p # ps) resolvedPath resolvedAbsolute =
     (if resolvedAbsolute then (resolvedPath, resolvedAbsolute)
      else if p = [] then resolve_loop ps resolvedPath resolvedAbsolute
      else resolve_loop ps (p @ ''/'' @ resolvedPath) (hd p = CHR ''/''))"

definition render :: "location \<Rightarrow> string" where
  "render segs = CHR ''/'' # join ''/'' segs"

subsection \<open>The directory tree\<close>

text \<open>
  A node is a regular file with its text or a directory with its entries; a
  position of the tree that holds nothing is \<open>None\<close>. Every operation walks the
  path from the root and fails the way the host does for structural reasons:
  \<open>NotFound\<close> when a name is missing, \<open>NotADirectory\<close> when the walk meets a file,
  \<open>IsADirectory\<close> when a file operation lands on a directory. Permissions, busy
  mount points, symbolic links and device errors are outside the model; in
  particular every directory, the root included, can be removed.
\<close>

datatype node = File string | Dir "(string \<times> node) list"

datatype error =
    Error string
  | NotFound
  | NotADirectory
  | IsADirectory
  | AlreadyExists
  | SpawnFailed

definition set_child :: "(string \<times> node) list \<Rightarrow> string \<Rightarrow> node option \<Rightarrow> (string \<times> node) list" where
  "set_child es s ch =
     (case ch of None \<Rightarrow> AList.delete s es | Some n \<Rightarrow> AList.update s n es)"

fun stat_at :: "node option \<Rightarrow> location \<Rightarrow> error + node" where
  "stat_at t [] = (case t of None \<Rightarrow> Inl NotFound | Some n \<Rightarrow> Inr n)"
| "stat_at t (s # p) =
     (case t of
        None \<Rightarrow> Inl NotFound
      | Some (File c) \<Rightarrow> Inl NotADirectory
      | Some (Dir es) \<Rightarrow> stat_at (map_of es s) p)"

text \<open>\<^verbatim>\<open>mkdir\<close> with \<^verbatim>\<open>recursive: true\<close>: missing directories are created along the path.\<close>

fun mkdir_at :: "node option \<Rightarrow> location \<Rightarrow> error + node option" where
  "mkdir_at t [] =
     (case t of
        None \<Rightarrow> Inr (Some (Dir []))
      | Some (File c) \<Rightarrow> Inl AlreadyExists
      | Some (Dir es) \<Rightarrow> Inr t)"
| "mkdir_at t (s # p) =
     (case t of
        None \<Rightarrow>
          (case mkdir_at None p of
             Inl e \<Rightarrow> Inl e
           | Inr ch \<Rightarrow> Inr (Some (Dir (set_child [] s ch))))
      | Some (File c) \<Rightarrow> Inl NotADirectory
      | Some (Dir es) \<Rightarrow>
          (case mkdir_at (map_of es s) p of
             Inl e \<Rightarrow> Inl e
           | Inr ch \<Rightarrow> Inr (Some (Dir (set_child es s ch)))))"

text \<open>Creating or truncating a regular file; its directory must exist.\<close>

fun write_at :: "node option \<Rightarrow> location \<Rightarrow> string \<Rightarrow> error + node option" where
  "write_at t [] data =
     (case t of
        Some (Dir es) \<Rightarrow> Inl IsADirectory
      | _ \<Rightarrow> Inr (Some (File data)))"
| "write_at t (s # p) data =
     (case t of
        None \<Rightarrow> Inl NotFound
      | Some (File c) \<Rightarrow> Inl NotADirectory
      | Some (Dir es) \<Rightarrow>
          (case write_at (map_of es s) p data of
             Inl e \<Rightarrow> Inl e
           | Inr ch \<Rightarrow> Inr (Some (Dir (set_child es s ch)))))"

text \<open>\<^verbatim>\<open>remove\<close> with \<^verbatim>\<open>recursive: true\<close>: the node and everything below it go.\<close>

fun remove_at :: "node option \<Rightarrow> location \<Rightarrow> error + node option" where
  "remove_at t [] = (case t of None \<Rightarrow> Inl NotFound | Some n \<Rightarrow> Inr None)"
| "remove_at t (s # p) =
     (case t of
        None \<Rightarrow> Inl NotFound
      | Some (File c) \<Rightarrow> Inl NotADirectory
      | Some (Dir es) \<Rightarrow>
          (case remove_at (map_of es s) p of
             Inl e \<Rightarrow> Inl e
           | Inr ch \<Rightarrow> Inr (Some (Dir (set_child es s ch)))))"

subsection \<open>Environment and world\<close>

text \<open>
  What a child process did: it could not be spawned, or it ran, wrote some regular
  files (path and text, in order) and exited with a status code. A child process
  is taken to create and overwrite regular files only.
\<close>

datatype process_result = NotSpawned | Exited int "(string \<times> string) list"

text \<open>One entry of the trace for each host call the source makes.\<close>

datatype event =
    Exists string
  | EnsureDir string
  | WriteTextFile string string
  | ReadTextFile string
  | Remove string
  | Command string "string list"
  | ConsoleError string

text \<open>
  The environment of a call: \<open>os\<close> is \<^verbatim>\<open>Deno.build.os\<close>, \<open>cwd\<close> the names
  of the working directory from the root, and \<open>run cmd args\<close> what the child
  process spawned with this command and these arguments does.
\<close>

record env =
  os :: string
  cwd :: location
  run :: "string \<Rightarrow> string list \<Rightarrow> process_result"

text \<open>The world a call changes: the directory tree and the host calls made so far.\<close>

record world =
  files :: "node option"
  trace :: "event list"

type_synonym 'a io = "world \<Rightarrow> (error + 'a) \<times> world"

definition log :: "event \<Rightarrow> world \<Rightarrow> world" where
  "log e w = w\<lparr>trace := trace w @ [e]\<rparr>"

definition return :: "'a \<Rightarrow> 'a io" where
  "return x w = (Inr x, w)"

definition throw :: "error \<Rightarrow> 'a io" where
  "throw e w = (Inl e, w)"

text \<open>\<^verbatim>\<open>const x = await m; k(x)\<close>: an exception in \<open>m\<close> skips \<open>k\<close>.\<close>

definition await :: "'a io \<Rightarrow> ('a \<Rightarrow> 'b io) \<Rightarrow> 'b io" where
  "await m k w = (case m w of (Inl e, w') \<Rightarrow> (Inl e, w') | (Inr x, w') \<Rightarrow> k x w')"

text \<open>\<^verbatim>\<open>Deno.cwd()\<close>, an absolute path.\<close>

definition Deno_cwd :: "env \<Rightarrow> string" where
  "Deno_cwd E = render (cwd E)"

definition resolve_parts :: "env \<Rightarrow> string list \<Rightarrow> string list \<times> bool" where
  "resolve_parts E pathSegments =
     (case resolve_loop (rev pathSegments @ [Deno_cwd E]) [] False of
        (resolvedPath, resolvedAbsolute) \<Rightarrow>
          (normalizeString (\<not> resolvedAbsolute) [] (split_sep CHR ''/'' resolvedPath),
           resolvedAbsolute))"

text \<open>\<^verbatim>\<open>stdPath.resolve(...pathSegments)\<close>.\<close>

definition resolve :: "env \<Rightarrow> string list \<Rightarrow> string" where
  "resolve E pathSegments =
     (case resolve_parts E pathSegments of
        (segs, resolvedAbsolute) \<Rightarrow>
          (if resolvedAbsolute then render segs
           else if join ''/'' segs \<noteq> [] then join ''/'' segs
           else ''.''))"

text \<open>Where the host finds a path string in the tree.\<close>

definition locate :: "env \<Rightarrow> string \<Rightarrow> location" where
  "locate E path = fst (resolve_parts E [path])"

subsection \<open>Host calls\<close>

text \<open>
  \<^verbatim>\<open>fs.exists(path, { isDirectory: true })\<close>: \<^verbatim>\<open>Deno.stat\<close>, false when the path
  is not a directory or is not found, any other failure rethrown.
\<close>

definition fs_exists_isDirectory :: "env \<Rightarrow> string \<Rightarrow> bool io" where
  "fs_exists_isDirectory E path w =
     (case stat_at (files w) (locate E path) of
        Inr (Dir es) \<Rightarrow> (Inr True, log (Exists path) w)
      | Inr (File c) \<Rightarrow> (Inr False, log (Exists path) w)
      | Inl NotFound \<Rightarrow> (Inr False, log (Exists path) w)
      | Inl e \<Rightarrow> (Inl e, log (Exists path) w))"

text \<open>
  \<^verbatim>\<open>fs.ensureDir(dir)\<close>: nothing to do for a directory, an error for anything
  else that exists, \<^verbatim>\<open>Deno.mkdir(dir, { recursive: true })\<close> when nothing is found.
\<close>

definition fs_ensureDir :: "env \<Rightarrow> string \<Rightarrow> unit io" where
  "fs_ensureDir E dir w =
     (case stat_at (files w) (locate E dir) of
        Inr (Dir es) \<Rightarrow> (Inr (), log (EnsureDir dir) w)
      | Inr (File c) \<Rightarrow>
          (Inl (Error (''Failed to ensure directory exists: expected 'dir', got 'file''
                       @ [CHR 0x27])),
           log (EnsureDir dir) w)
      | Inl NotFound \<Rightarrow>
          (case mkdir_at (files w) (locate E dir) of
             Inl e \<Rightarrow> (Inl e, log (EnsureDir dir) w)
           | Inr t \<Rightarrow> (Inr (), log (EnsureDir dir) (w\<lparr>files := t\<rparr>)))
      | Inl e \<Rightarrow> (Inl e, log (EnsureDir dir) w))"

definition Deno_writeTextFile :: "env \<Rightarrow> string \<Rightarrow> string \<Rightarrow> unit io" where
  "Deno_writeTextFile E path data w =
     (case write_at (files w) (locate E path) data of
        Inl e \<Rightarrow> (Inl e, log (WriteTextFile path data) w)
      | Inr t \<Rightarrow> (Inr (), log (WriteTextFile path data) (w\<lparr>files := t\<rparr>)))"

definition Deno_readTextFile :: "env \<Rightarrow> string \<Rightarrow> string io" where
  "Deno_readTextFile E path w =
     (case stat_at (files w) (locate E path) of
        Inl e \<Rightarrow> (Inl e, log (ReadTextFile path) w)
      | Inr (Dir es) \<Rightarrow> (Inl IsADirectory, log (ReadTextFile path) w)
      | Inr (File c) \<Rightarrow> (Inr c, log (ReadTextFile path) w))"

text \<open>\<^verbatim>\<open>Deno.remove(path, { recursive: true })\<close>.\<close>

definition Deno_remove_recursive :: "env \<Rightarrow> string \<Rightarrow> unit io" where
  "Deno_remove_recursive E path w =
     (case remove_at (files w) (locate E path) of
        Inl e \<Rightarrow> (Inl e, log (Remove path) w)
      | Inr t \<Rightarrow> (Inr (), log (Remove path) (w\<lparr>files := t\<rparr>)))"

text \<open>The files a child process wrote; a write that fails is the child's own affair.\<close>

fun child_writes :: "env \<Rightarrow> (string \<times> string) list \<Rightarrow> node option \<Rightarrow> node option" where
  "child_writes E [] t = t"
| "child_writes E ((path, data) # ws) t =
     (case write_at t (locate E path) data of
        Inl e \<Rightarrow> child_writes E ws t
      | Inr t' \<Rightarrow> child_writes E ws t')"

record CommandOutput =
  success :: bool
  code :: int

text \<open>
  \<^verbatim>\<open>new Deno.Command(cmd, { args, ... }).output()\<close>: \<^verbatim>\<open>success\<close> is true exactly
  for the exit code 0.
\<close>

definition Deno_Command_output :: "env \<Rightarrow> string \<Rightarrow> string list \<Rightarrow> CommandOutput io" where
  "Deno_Command_output E cmd args w =
     (case run E cmd args of
        NotSpawned \<Rightarrow> (Inl SpawnFailed, log (Command cmd args) w)
      | Exited c ws \<Rightarrow>
          (Inr \<lparr>success = (c = 0), code = c\<rparr>,
           log (Command cmd args) (w\<lparr>files := child_writes E ws (files w)\<rparr>)))"

definition console_error :: "string \<Rightarrow> unit io" where
  "console_error msg w = (Inr (), log (ConsoleError msg) w)"

subsection \<open>The two functions of \<^verbatim>\<open>mod.ts\<close>\<close>

text \<open>
  The option records. An optional field is an \<open>option\<close>, \<open>None\<close> for a field
  that is absent (\<^verbatim>\<open>undefined\<close>). The fields carry the prefix \<open>opt_\<close> and those
  of the returned object the prefix \<open>res_\<close>, which leaves the source's names free
  for the local variables of the two functions.
\<close>

record GetSelfSignedCertDocumentationOptions =
  opt_projectUrl :: "string option"

record GetSelfSignedCertOptions =
  opt_name :: "string option"
  opt_outDir :: "string option"
  opt_days :: "number option"
  opt_extraAltNames :: "string list option"
  opt_docs :: "GetSelfSignedCertDocumentationOptions option"

record Result =
  res_outDir :: string
  res_key :: string
  res_cert :: string
  res_keyFile :: string
  res_certFile :: string

text \<open>A destructuring default \<^verbatim>\<open>{ x = d }\<close>: \<open>d\<close> replaces an absent field only.\<close>

definition default_to :: "'a \<Rightarrow> 'a option \<Rightarrow> 'a" where
  "default_to d x = (case x of None \<Rightarrow> d | Some v \<Rightarrow> v)"

text \<open>\<^verbatim>\<open>x || d\<close> on an optional string: \<open>d\<close> replaces an absent and an empty string.\<close>

definition or_else :: "string option \<Rightarrow> string \<Rightarrow> string" where
  "or_else x d = (case x of None \<Rightarrow> d | Some v \<Rightarrow> if v = [] then d else v)"

text \<open>The template literal written to \<^verbatim>\<open>readme.md\<close>; every line ends with a line feed.\<close>

definition readme_md :: "string \<Rightarrow> string \<Rightarrow> string" where
  "readme_md projectUrl name =
     concat (map (\<lambda>l. l @ [CHR 0x0A])
      [''# Self Signed Certs'',
       [],
       ''These files are used for hosting a local https server. You may visit '' @ projectUrl,
       ''in your browser directly, but you will probably get a security warning. You can'',
       ''dismiss the warning but this will likely still disable some browser features.'',
       ''To fix this, you have to make your browser trust the certificate.'',
       [],
       ''# Chrome and Safari'',
       [],
       ''On macOS you can do this by adding selfsigned.crt to your keychain:'',
       [CHR 0x09] @ ''- Double click selfsigned.crt to add it to the macOS keychain'',
       [CHR 0x09] @ ''- Open Keychain Access and find '' @ [CHR 0x27] @ name @ [CHR 0x27]
         @ '' under System Keychains -> System -> Certifcates (tab)'',
       [CHR 0x09] @ ''- Double click '' @ [CHR 0x27] @ name @ [CHR 0x27]
         @ '' and open the 'trust' section'',
       [CHR 0x09] @ ''- Set 'Secure Sockets Layer (SSL)' to 'always trust'' @ [CHR 0x27],
       [CHR 0x09] @ ''- Make sure to close the window and enter your password for the changes to take effect'',
       [CHR 0x09] @ ''- If you have already visited the page, you may need to restart your browser.'',
       [],
       ''# Firefox'',
       [],
       ''Firefox doesn't automatically trust system certificates unfortunately.'',
       ''But so far it seems like dismissing the security warning on '' @ projectUrl,
       ''adds a security exception which is remembered even after restarting the browser.''])"

text \<open>
  \<^verbatim>\<open>generateOutDirContents(outDir, options)\<close>. The block guarded by
  \<^verbatim>\<open>!await fs.exists(...)\<close> either falls through to the statements after it
  (\<open>None\<close>) or leaves the function by \<^verbatim>\<open>return null\<close> (\<open>Some None\<close>); the
  function's own result is \<open>None\<close> for \<^verbatim>\<open>null\<close>.
\<close>

definition generateOutDirContents ::
    "env \<Rightarrow> string \<Rightarrow> GetSelfSignedCertOptions \<Rightarrow> Result option io" where
  "generateOutDirContents E outDir options =
     (let name = default_to ''Self Signed Cert'' (opt_name options);
          days = default_to (number_of_int 365) (opt_days options);
          extraAltNames = default_to [] (opt_extraAltNames options);
          docs = default_to \<lparr>opt_projectUrl = None\<rparr> (opt_docs options);
          projectUrl = default_to ''https://localhost:8080'' (opt_projectUrl docs);
          keyFile = resolve E [outDir, ''selfsigned.key''];
          certFile = resolve E [outDir, ''selfsigned.crt'']
      in
        await (fs_exists_isDirectory E outDir) (\<lambda>dirExists.
        await
          (if \<not> dirExists then
             await (fs_ensureDir E outDir) (\<lambda>_.
             await (Deno_writeTextFile E (resolve E [outDir, ''.gitignore'']) ''**'') (\<lambda>_.
             if os E = ''darwin'' then
               (let altNames = [''DNS:localhost'', ''IP:127.0.0.1'', ''IP:0.0.0.0''] @ extraAltNames
                in
                  await
                    (Deno_Command_output E ''openssl''
                       [''req'',
                        ''-newkey'',
                        ''rsa:4096'',
                        ''-x509'',
                        ''-nodes'',
                        ''-keyout'',
                        keyFile,
                        ''-new'',
                        ''-out'',
                        certFile,
                        ''-subj'',
                        ''/CN='' @ name,
                        ''-addext'',
                        ''subjectAltName = '' @ join '','' altNames,
                        ''-sha256'',
                        ''-days'',
                        Number_toString days])
                    (\<lambda>out.
                  if \<not> success out then
                    throw (Error (''openssl exited with status code '' @ String_number (code out)))
                  else
                    await
                      (Deno_writeTextFile E (resolve E [outDir, ''readme.md''])
                         (readme_md projectUrl name))
                      (\<lambda>_. return None)))
             else
               await
                 (console_error ''Creating self signed certificates is not supported on this platform.'')
                 (\<lambda>_. return (Some None))))
           else return None)
          (\<lambda>returned.
        case returned of
          Some v \<Rightarrow> return v
        | None \<Rightarrow>
            await (Deno_readTextFile E keyFile) (\<lambda>key.
            await (Deno_readTextFile E certFile) (\<lambda>cert.
            return
              (Some \<lparr>res_outDir = outDir, res_key = key, res_cert = cert,
                     res_keyFile = keyFile, res_certFile = certFile\<rparr>))))))"

text \<open>
  \<^verbatim>\<open>getSelfSignedCert(options)\<close>: whatever \<^verbatim>\<open>generateOutDirContents\<close> throws is
  caught, the output directory is removed recursively and the exception is thrown
  again; should the removal itself throw, that exception leaves the function.
\<close>

definition getSelfSignedCert :: "env \<Rightarrow> GetSelfSignedCertOptions \<Rightarrow> Result option io" where
  "getSelfSignedCert E options w =
     (let outDir = resolve E [or_else (opt_outDir options) ''selfSignedCerts'']
      in
        case generateOutDirContents E outDir options w of
          (Inr r, w') \<Rightarrow> (Inr r, w')
        | (Inl e, w') \<Rightarrow>
            await (Deno_remove_recursive E outDir) (\<lambda>_. throw e) w')"

subsection \<open>Auxiliary notions\<close>

text \<open>The names of a normalised absolute path: not empty, free of \<^verbatim>\<open>/\<close>, neither \<^verbatim>\<open>.\<close> nor \<^verbatim>\<open>..\<close>.\<close>

definition clean :: "string list \<Rightarrow> bool" where
  "clean S = (\<forall>s\<in>set S. s \<noteq> [] \<and> CHR ''/'' \<notin> set s \<and> s \<noteq> ''.'' \<and> s \<noteq> ''..'')"

text \<open>A directory is found at the location.\<close>

definition is_dir :: "node option \<Rightarrow> location \<Rightarrow> bool" where
  "is_dir t p = (case stat_at t p of Inr (Dir es) \<Rightarrow> True | _ \<Rightarrow> False)"

text \<open>The child processes of a trace, with their arguments.\<close>

fun commands :: "event list \<Rightarrow> (string \<times> string list) list" where
  "commands [] = []"
| "commands (Command cmd args # es) = (cmd, args) # commands es"
| "commands (e # es) = commands es"

text \<open>The files a trace writes, with their text.\<close>

fun writes :: "event list \<Rightarrow> (string \<times> string) list" where
  "writes [] = []"
| "writes (WriteTextFile path data # es) = (path, data) # writes es"
| "writes (e # es) = writes es"

text \<open>
  Shorthands for the statements below: the value of \<^verbatim>\<open>outDir\<close> in
  \<^verbatim>\<open>getSelfSignedCert\<close> and the argument array handed to \<^verbatim>\<open>Deno.Command\<close>.
\<close>

abbreviation resolved_outDir :: "env \<Rightarrow> GetSelfSignedCertOptions \<Rightarrow> string" where
  "resolved_outDir E options \<equiv> resolve E [or_else (opt_outDir options) ''selfSignedCerts'']"

abbreviation openssl_args :: "env \<Rightarrow> GetSelfSignedCertOptions \<Rightarrow> string list" where
  "openssl_args E options \<equiv>
     [''req'', ''-newkey'', ''rsa:4096'', ''-x509'', ''-nodes'',
      ''-keyout'', resolve E [resolved_outDir E options, ''selfsigned.key''],
      ''-new'',
      ''-out'', resolve E [resolved_outDir E options, ''selfsigned.crt''],
      ''-subj'', ''/CN='' @ default_to ''Self Signed Cert'' (opt_name options),
      ''-addext'',
      ''subjectAltName = '' @
        join '','' ([''DNS:localhost'', ''IP:127.0.0.1'', ''IP:0.0.0.0'']
                   @ default_to [] (opt_extraAltNames options)),
      ''-sha256'',
      ''-days'', Number_toString (default_to (number_of_int 365) (opt_days options))]"

subsection \<open>Concrete hosts, options and worlds\<close>

definition no_options :: GetSelfSignedCertOptions where
  "no_options =
     \<lparr>opt_name = None, opt_outDir = None, opt_days = None, opt_extraAltNames = None,
      opt_docs = None\<rparr>"

definition mac_host :: "process_result \<Rightarrow> env" where
  "mac_host r = \<lparr>os = ''darwin'', cwd = [''home'', ''dev''], run = (\<lambda>cmd args. r)\<rparr>"

definition openssl_host :: env where
  "openssl_host =
     \<lparr>os = ''darwin'', cwd = [''home'', ''dev''],
      run = (\<lambda>cmd args. Exited 0 [(args ! 6, ''KEY''), (args ! 9, ''CERT'')])\<rparr>"

definition linux_host :: env where
  "linux_host = \<lparr>os = ''linux'', cwd = [''home'', ''dev''], run = (\<lambda>cmd args. NotSpawned)\<rparr>"

definition fresh_world :: world where
  "fresh_world = \<lparr>files = Some (Dir [(''home'', Dir [(''dev'', Dir [])])]), trace = []\<rparr>"

definition half_world :: world where
  "half_world =
     \<lparr>files = Some (Dir [(''home'', Dir [(''dev'', Dir [(''selfSignedCerts'',
         Dir [(''.gitignore'', File ''**''), (''selfsigned.key'', File ''KEY'')])])])]),
      trace = []\<rparr>"

definition full_world :: world where
  "full_world =
     \<lparr>files = Some (Dir [(''home'', Dir [(''dev'', Dir [(''selfSignedCerts'',
         Dir [(''selfsigned.key'', File ''KEY''), (''selfsigned.crt'', File ''CERT'')])])])]),
      trace = []\<rparr>"

definition dev_options :: GetSelfSignedCertOptions where
  "dev_options =
     \<lparr>opt_name = Some ''Test'', opt_outDir = Some ''./tmpcerts'', opt_days = Some (number_of_int 30),
      opt_extraAltNames = Some [''DNS:dev.local'', ''IP:127.0.0.1'', ''DNS:dev.local''],
      opt_docs = Some \<lparr>opt_projectUrl = Some ''https://dev.local:8443''\<rparr>\<rparr>"

section \<open>Properties of the host model\<close>

subsection \<open>Splitting, normalising and resolving paths\<close>

lemma split_sep_nonempty: "split_sep c xs \<noteq> []"
  by (induction xs) (auto split: list.splits)

lemma split_sep_append: "split_sep c (xs @ c # ys) = split_sep c xs @ split_sep c ys"
  by (induction xs) (auto split: list.splits simp: split_sep_nonempty)

lemma split_sep_none: "c \<notin> set xs \<Longrightarrow> split_sep c xs = [xs]"
  by (induction xs) auto

lemma split_sep_free: "s \<in> set (split_sep c xs) \<Longrightarrow> c \<notin> set s"
  by (induction xs arbitrary: s) (auto split: if_splits list.splits)

lemma split_sep_join:
  "\<forall>s\<in>set S. c \<notin> set s \<Longrightarrow> S \<noteq> [] \<Longrightarrow> split_sep c (join [c] S) = S"
proof (induction "[c]" S rule: join.induct)
  case 1
  then show ?case by simp
next
  case (2 x)
  then show ?case by (simp add: split_sep_none)
next
  case (3 x y ys)
  then show ?case using split_sep_append [of c x "join [c] (y # ys)"]
    by (simp add: split_sep_none)
qed

lemma normalizeString_clean_append:
  "clean S \<Longrightarrow> normalizeString a acc (S @ ss) = normalizeString a (rev S @ acc) ss"
  by (induction S arbitrary: acc) (auto simp: clean_def)

lemma normalizeString_clean_acc:
  "clean acc \<Longrightarrow> \<forall>s\<in>set ss. CHR ''/'' \<notin> set s \<Longrightarrow> clean (normalizeString False acc ss)"
proof (induction ss arbitrary: acc)
  case Nil
  then show ?case by (simp add: clean_def)
next
  case (Cons s ss)
  have tl: "clean (tl acc)" using Cons.prems(1) by (cases acc) (auto simp: clean_def)
  have cons: "s \<noteq> [] \<Longrightarrow> s \<noteq> ''.'' \<Longrightarrow> s \<noteq> ''..'' \<Longrightarrow> clean (s # acc)"
    using Cons.prems by (auto simp: clean_def)
  show ?case using Cons.IH [OF tl] Cons.IH [OF cons] Cons.IH [OF Cons.prems(1)] Cons.prems(2)
    by auto
qed

lemma render_nonempty: "render S \<noteq> []" "hd (render S) = CHR ''/''"
  by (simp_all add: render_def)

lemma split_render:
  "clean S \<Longrightarrow> normalizeString a acc (split_sep CHR ''/'' (render S @ ''/'' @ rest))
     = normalizeString a (rev S @ acc) (split_sep CHR ''/'' rest)"
proof (cases "S = []")
  case True
  then show ?thesis by (simp add: render_def)
next
  case False
  assume c: "clean S"
  then have "split_sep CHR ''/'' (join ''/'' S) = S"
    using False split_sep_join [of S "CHR ''/''"] by (auto simp: clean_def)
  then have "split_sep CHR ''/'' (render S @ ''/'' @ rest) = [] # S @ split_sep CHR ''/'' rest"
    using split_sep_append [of "CHR ''/''" "join ''/'' S" rest] by (simp add: render_def)
  then show ?thesis using normalizeString_clean_append [OF c] by simp
qed

lemma clean_locate: "clean (locate E x)"
proof -
  have *: "clean (normalizeString False [] (split_sep CHR ''/'' p))" for p
    by (rule normalizeString_clean_acc) (auto simp: clean_def dest: split_sep_free)
  show ?thesis
    by (cases "x = []"; cases "hd x = CHR ''/''")
       (simp_all add: locate_def resolve_parts_def Deno_cwd_def render_nonempty *)
qed

lemma resolve_parts_absolute: "snd (resolve_parts E [x]) = True"
  by (cases "x = []"; cases "hd x = CHR ''/''")
     (simp_all add: resolve_parts_def Deno_cwd_def render_nonempty)

lemma resolve_single: "resolve E [x] = render (locate E x)"
  using resolve_parts_absolute [of E x]
  by (cases "resolve_parts E [x]") (simp add: resolve_def locate_def)

lemma locate_render: "clean S \<Longrightarrow> locate E (render S) = S"
  using split_render [of S False "[]" "[]"]
  by (simp add: locate_def resolve_parts_def render_nonempty)

lemma locate_resolve: "locate E (resolve E [x]) = locate E x"
  by (simp add: resolve_single locate_render clean_locate)

lemma resolve_parts_child:
  assumes "clean S" and "clean [n]"
  shows "resolve_parts E [render S, n] = (S @ [n], True)"
proof -
  have n: "n \<noteq> []" "hd n \<noteq> CHR ''/''" "CHR ''/'' \<notin> set n" "n \<noteq> ''.''" "n \<noteq> ''..''"
    using assms(2) by (cases n; auto simp: clean_def)+
  have "normalizeString False [] (split_sep CHR ''/'' (render S @ ''/'' @ n @ ''/''))
          = normalizeString False (rev S) (split_sep CHR ''/'' (n @ ''/''))"
    using split_render [OF assms(1), of False "[]" "n @ ''/''"] by simp
  also have "split_sep CHR ''/'' (n @ ''/'') = [n, []]"
    using split_sep_append [of "CHR ''/''" n "[]"] n by (simp add: split_sep_none)
  finally show ?thesis using n
    by (simp add: resolve_parts_def render_nonempty)
qed

lemma resolve_child:
  "clean [n] \<Longrightarrow> resolve E [resolve E [x], n] = render (locate E x @ [n])"
proof -
  assume n: "clean [n]"
  have "resolve E [resolve E [x], n] = resolve E [render (locate E x), n]"
    by (simp only: resolve_single)
  also have "\<dots> = render (locate E x @ [n])"
    using resolve_parts_child [OF clean_locate [of E x] n, of E] by (simp add: resolve_def)
  finally show ?thesis .
qed

lemma normalizeString_append:
  "normalizeString a acc (xs @ ys) = normalizeString a (rev (normalizeString a acc xs)) ys"
  by (induction xs arbitrary: acc) auto

lemma locate_cwd:
  "locate E (Deno_cwd E) = normalizeString False [] (split_sep CHR ''/'' (render (cwd E)))"
  using split_sep_append [of "CHR ''/''" "render (cwd E)" "[]"]
    normalizeString_append [of False "[]" "split_sep CHR ''/'' (render (cwd E))" "[[]]"]
  by (simp add: locate_def resolve_parts_def Deno_cwd_def render_nonempty)

lemma locate_relative:
  assumes "clean [n]"
  shows "locate E n = locate E (Deno_cwd E) @ [n]"
proof -
  have n: "n \<noteq> []" "hd n \<noteq> CHR ''/''" "CHR ''/'' \<notin> set n" "n \<noteq> ''.''" "n \<noteq> ''..''"
    using assms by (cases n; auto simp: clean_def)+
  have "split_sep CHR ''/'' (render (cwd E) @ ''/'' @ n @ ''/'')
          = split_sep CHR ''/'' (render (cwd E)) @ [n, []]"
    using split_sep_append [of "CHR ''/''" "render (cwd E)" "n @ ''/''"]
      split_sep_append [of "CHR ''/''" n "[]"] n by (simp add: split_sep_none)
  then show ?thesis using n
    by (simp add: locate_cwd normalizeString_append)
       (simp add: locate_def resolve_parts_def Deno_cwd_def render_nonempty normalizeString_append)
qed

subsection \<open>The directory tree\<close>

lemma map_of_set_child: "map_of (set_child es s ch) = (map_of es)(s := ch)"
  by (cases ch) (simp_all add: set_child_def update_conv' delete_conv')

lemma stat_at_None: "stat_at None p = Inl NotFound"
  by (cases p) simp_all

lemma mkdir_at_fresh:
  "stat_at t p = Inl NotFound \<Longrightarrow> \<exists>t'. mkdir_at t p = Inr t' \<and> stat_at t' p = Inr (Dir [])"
proof (induction p arbitrary: t)
  case Nil
  then show ?case by (auto split: option.splits)
next
  case (Cons s p)
  show ?case
  proof (cases t)
    case None
    obtain ch where "mkdir_at None p = Inr ch" "stat_at ch p = Inr (Dir [])"
      using Cons.IH [of None] by (auto simp: stat_at_None)
    then show ?thesis using None by (simp add: map_of_set_child)
  next
    case (Some n)
    show ?thesis
    proof (cases n)
      case (File c)
      then show ?thesis using Some Cons.prems by simp
    next
      case (Dir es)
      then have "stat_at (map_of es s) p = Inl NotFound" using Some Cons.prems by simp
      then obtain ch where "mkdir_at (map_of es s) p = Inr ch" "stat_at ch p = Inr (Dir [])"
        using Cons.IH by blast
      then show ?thesis using Some Dir by (simp add: map_of_set_child)
    qed
  qed
qed

lemma write_at_in_dir:
  "stat_at t p = Inr (Dir es) \<Longrightarrow> \<forall>es'. map_of es s \<noteq> Some (Dir es') \<Longrightarrow>
     \<exists>t'. write_at t (p @ [s]) d = Inr t'
          \<and> stat_at t' p = Inr (Dir (set_child es s (Some (File d))))"
proof (induction p arbitrary: t)
  case Nil
  then show ?case by (auto split: option.splits node.splits)
next
  case (Cons a p)
  then obtain es0 where t: "t = Some (Dir es0)" "stat_at (map_of es0 a) p = Inr (Dir es)"
    by (auto split: option.splits node.splits)
  obtain ch where "write_at (map_of es0 a) (p @ [s]) d = Inr ch"
      "stat_at ch p = Inr (Dir (set_child es s (Some (File d))))"
    using Cons.IH [OF t(2) Cons.prems(2)] by blast
  then show ?case using t by (simp add: map_of_set_child)
qed

lemma write_at_is_dir:
  "write_at t q d = Inr t' \<Longrightarrow> is_dir t' p = is_dir t p"
proof (induction p arbitrary: t t' q)
  case Nil
  then show ?case
    by (cases q) (auto simp: is_dir_def split: option.splits node.splits sum.splits)
next
  case (Cons s p)
  show ?case
  proof (cases q)
    case Nil
    then show ?thesis using Cons.prems
      by (auto simp: is_dir_def split: option.splits node.splits)
  next
    case (Cons s2 q')
    then obtain es ch where t: "t = Some (Dir es)" "write_at (map_of es s2) q' d = Inr ch"
        "t' = Some (Dir (set_child es s2 ch))"
      using Cons.prems by (auto split: option.splits node.splits sum.splits)
    have "is_dir ch p = is_dir (map_of es s2) p" using Cons.IH [OF t(2)] .
    then show ?thesis using t by (auto simp: is_dir_def map_of_set_child)
  qed
qed

lemma child_writes_is_dir: "is_dir (child_writes E ws t) p = is_dir t p"
proof (induction ws arbitrary: t)
  case Nil
  then show ?case by simp
next
  case (Cons a ws)
  obtain path d where a: "a = (path, d)" by (cases a)
  show ?case
  proof (cases "write_at t (locate E path) d")
    case (Inl e)
    then show ?thesis using Cons.IH [of t] a by simp
  next
    case (Inr t')
    then show ?thesis using Cons.IH [of t'] a write_at_is_dir [OF Inr, of p] by simp
  qed
qed

lemma remove_at_existing:
  "stat_at t p = Inr n \<Longrightarrow> \<exists>t'. remove_at t p = Inr t' \<and> stat_at t' p = Inl NotFound"
proof (induction p arbitrary: t)
  case Nil
  then show ?case by (auto split: option.splits)
next
  case (Cons s p)
  then obtain es where t: "t = Some (Dir es)" "stat_at (map_of es s) p = Inr n"
    by (auto split: option.splits node.splits)
  obtain ch where "remove_at (map_of es s) p = Inr ch" "stat_at ch p = Inl NotFound"
    using Cons.IH [OF t(2)] by blast
  then show ?case using t by (simp add: map_of_set_child)
qed

lemma write_at_parent:
  "write_at t (p @ [s]) d = Inr t' \<Longrightarrow> is_dir t' p"
proof (induction p arbitrary: t t')
  case Nil
  then show ?case by (auto simp: is_dir_def split: option.splits node.splits sum.splits)
next
  case (Cons a p)
  then obtain es ch where t: "t = Some (Dir es)" "write_at (map_of es a) (p @ [s]) d = Inr ch"
      "t' = Some (Dir (set_child es a ch))"
    by (auto split: option.splits node.splits sum.splits)
  show ?case using Cons.IH [OF t(2)] t by (simp add: is_dir_def map_of_set_child)
qed

subsection \<open>Host calls and the two functions\<close>

lemmas host_defs =
  await_def return_def throw_def log_def fs_exists_isDirectory_def fs_ensureDir_def
  Deno_writeTextFile_def Deno_readTextFile_def Deno_remove_recursive_def
  Deno_Command_output_def console_error_def

lemma locate_render_child:
  "clean [n] \<Longrightarrow> locate E (render (locate E x @ [n])) = locate E x @ [n]"
  using clean_locate [of E x] by (simp add: locate_render clean_def)

lemmas path_simps = locate_resolve locate_render_child resolve_child clean_def

lemma fresh_dir:
  assumes "stat_at t D = Inl NotFound"
  shows "\<exists>t1 t2. mkdir_at t D = Inr t1 \<and> write_at t1 (D @ [''.gitignore'']) ''**'' = Inr t2
           \<and> stat_at t2 D = Inr (Dir [(''.gitignore'', File ''**'')])"
proof -
  obtain t1 where t1: "mkdir_at t D = Inr t1" "stat_at t1 D = Inr (Dir [])"
    using mkdir_at_fresh [OF assms] by blast
  obtain t2 where "write_at t1 (D @ [''.gitignore'']) ''**'' = Inr t2"
      "stat_at t2 D = Inr (Dir (set_child [] ''.gitignore'' (Some (File ''**''))))"
    using write_at_in_dir [OF t1(2), of "''.gitignore''" "''**''"] by auto
  then show ?thesis using t1 by (auto simp: set_child_def)
qed

lemma commands_append: "commands (xs @ ys) = commands xs @ commands ys"
  by (induction xs rule: commands.induct) simp_all

lemma catch_commands:
  "commands (trace (snd (getSelfSignedCert E options w)))
     = commands (trace (snd (generateOutDirContents E (resolved_outDir E options) options w)))"
proof (cases "generateOutDirContents E (resolved_outDir E options) options w")
  case (Pair r w')
  then show ?thesis
    by (cases r; cases "remove_at (files w') (locate E (resolved_outDir E options))")
       (simp_all add: getSelfSignedCert_def Let_def await_def throw_def log_def
          Deno_remove_recursive_def commands_append)
qed

lemma generation_commands:
  assumes os: "os E = ''darwin''"
    and nf: "stat_at (files w) (locate E (resolved_outDir E options)) = Inl NotFound"
  shows "commands (trace (snd (getSelfSignedCert E options w)))
           = commands (trace w) @ [(''openssl'', openssl_args E options)]"
proof -
  let ?D = "locate E (or_else (opt_outDir options) ''selfSignedCerts'')"
  have nf': "stat_at (files w) ?D = Inl NotFound" using nf by (simp add: locate_resolve)
  obtain t1 t2 where t: "mkdir_at (files w) ?D = Inr t1"
     "write_at t1 (?D @ [''.gitignore'']) ''**'' = Inr t2"
    using fresh_dir [OF nf'] by blast
  have "commands (trace (snd (generateOutDirContents E (resolved_outDir E options) options w)))
           = commands (trace w) @ [(''openssl'', openssl_args E options)]"
  proof (cases "run E ''openssl'' (openssl_args E options)")
    case NotSpawned
    then show ?thesis using os nf' t
      by (simp add: generateOutDirContents_def Let_def host_defs path_simps commands_append)
  next
    case (Exited c ws)
    show ?thesis
    proof (cases "c = 0")
      case False
      then show ?thesis using os nf' t Exited
        by (simp add: generateOutDirContents_def Let_def host_defs path_simps commands_append)
    next
      case True
      then show ?thesis using os nf' t Exited
        by (simp add: generateOutDirContents_def Let_def host_defs path_simps commands_append
              split: sum.splits node.splits)
    qed
  qed
  then show ?thesis by (simp add: catch_commands)
qed

lemma await_Inr:
  "await m k w = (Inr y, w'') \<longleftrightarrow> (\<exists>x w'. m w = (Inr x, w') \<and> k x w' = (Inr y, w''))"
  by (cases "m w"; cases "fst (m w)") (auto simp: await_def)

lemma exists_Inr:
  "fs_exists_isDirectory E p w = (Inr b, w') \<Longrightarrow>
     w' = log (Exists p) w \<and> b = is_dir (files w) (locate E p)"
  by (auto simp: fs_exists_isDirectory_def is_dir_def split: sum.splits node.splits error.splits)

lemma read_Inr:
  "Deno_readTextFile E p w = (Inr c, w') \<Longrightarrow>
     w' = log (ReadTextFile p) w \<and> stat_at (files w) (locate E p) = Inr (File c)"
  by (auto simp: Deno_readTextFile_def split: sum.splits node.splits)

lemma write_Inr:
  "Deno_writeTextFile E p d w = (Inr u, w') \<Longrightarrow>
     write_at (files w) (locate E p) d = Inr (files w')"
  by (auto simp: Deno_writeTextFile_def log_def split: sum.splits)

lemma files_log: "files (log e w) = files w"
  by (simp add: log_def)

lemma generate_success:
  assumes "generateOutDirContents E (resolve E [x]) options w = (Inr (Some r), w1)"
  shows "is_dir (files w1) (locate E x)
       \<and> stat_at (files w1) (locate E x @ [''selfsigned.key'']) = Inr (File (res_key r))
       \<and> stat_at (files w1) (locate E x @ [''selfsigned.crt'']) = Inr (File (res_cert r))
       \<and> res_outDir r = resolve E [x]
       \<and> res_keyFile r = render (locate E x @ [''selfsigned.key''])
       \<and> res_certFile r = render (locate E x @ [''selfsigned.crt''])"
proof -
  obtain b wa ret wb where
      ex: "fs_exists_isDirectory E (resolve E [x]) w = (Inr b, wa)"
    and blk: "(if \<not> b then
             await (fs_ensureDir E (resolve E [x])) (\<lambda>_.
             await (Deno_writeTextFile E (resolve E [resolve E [x], ''.gitignore'']) ''**'') (\<lambda>_.
             if os E = ''darwin'' then
                  await
                    (Deno_Command_output E ''openssl''
                       [''req'', ''-newkey'', ''rsa:4096'', ''-x509'', ''-nodes'', ''-keyout'',
                        resolve E [resolve E [x], ''selfsigned.key''],
                        ''-new'', ''-out'',
                        resolve E [resolve E [x], ''selfsigned.crt''],
                        ''-subj'', ''/CN='' @ default_to ''Self Signed Cert'' (opt_name options),
                        ''-addext'',
                        ''subjectAltName = '' @ join '',''
                           ([''DNS:localhost'', ''IP:127.0.0.1'', ''IP:0.0.0.0'']
                            @ default_to [] (opt_extraAltNames options)),
                        ''-sha256'', ''-days'', Number_toString (default_to (number_of_int 365) (opt_days options))])
                    (\<lambda>out.
                  if \<not> success out then
                    throw (Error (''openssl exited with status code '' @ String_number (code out)))
                  else
                    await
                      (Deno_writeTextFile E (resolve E [resolve E [x], ''readme.md''])
                         (readme_md
                            (default_to ''https://localhost:8080''
                               (opt_projectUrl (default_to \<lparr>opt_projectUrl = None\<rparr> (opt_docs options))))
                            (default_to ''Self Signed Cert'' (opt_name options))))
                      (\<lambda>_. return None))
             else
               await
                 (console_error ''Creating self signed certificates is not supported on this platform.'')
                 (\<lambda>_. return (Some None))))
           else return None) wa = (Inr ret, wb)"
    and rest: "(case ret of
          Some v \<Rightarrow> return v
        | None \<Rightarrow>
            await (Deno_readTextFile E (resolve E [resolve E [x], ''selfsigned.key''])) (\<lambda>key.
            await (Deno_readTextFile E (resolve E [resolve E [x], ''selfsigned.crt''])) (\<lambda>cert.
            return
              (Some \<lparr>res_outDir = resolve E [x], res_key = key, res_cert = cert,
                     res_keyFile = resolve E [resolve E [x], ''selfsigned.key''],
                     res_certFile = resolve E [resolve E [x], ''selfsigned.crt'']\<rparr>)))) wb
         = (Inr (Some r), w1)"
    using assms unfolding generateOutDirContents_def Let_def await_Inr append.simps by blast
  have dir: "is_dir (files wb) (locate E x) \<and> ret = None"
  proof (cases b)
    case True
    then show ?thesis using blk exists_Inr [OF ex]
      by (auto simp: return_def files_log locate_resolve)
  next
    case False
    show ?thesis
    proof (cases "os E = ''darwin''")
      case True
      then obtain w4 where "Deno_writeTextFile E (resolve E [resolve E [x], ''readme.md''])
                         (readme_md
                            (default_to ''https://localhost:8080''
                               (opt_projectUrl (default_to \<lparr>opt_projectUrl = None\<rparr> (opt_docs options))))
                            (default_to ''Self Signed Cert'' (opt_name options))) w4 = (Inr (), wb)"
          and "ret = None"
        using blk False
        by (auto simp: await_Inr return_def throw_def split: if_splits)
      then show ?thesis using write_at_parent write_Inr
        by (fastforce simp: path_simps)
    next
      case False
      then show ?thesis using blk rest \<open>\<not> b\<close>
        by (auto simp: await_Inr return_def console_error_def)
    qed
  qed
  then show ?thesis using rest
    by (auto simp: await_Inr return_def path_simps files_log dest!: read_Inr)
qed

lemma cache_hit_run:
  assumes d: "is_dir (files w) (locate E (resolved_outDir E options))"
    and k: "stat_at (files w) (locate E (resolved_outDir E options) @ [''selfsigned.key'']) = Inr (File key)"
    and c: "stat_at (files w) (locate E (resolved_outDir E options) @ [''selfsigned.crt'']) = Inr (File cert)"
  shows "getSelfSignedCert E options w =
     (Inr (Some \<lparr>res_outDir = resolved_outDir E options, res_key = key, res_cert = cert,
                 res_keyFile = resolve E [resolved_outDir E options, ''selfsigned.key''],
                 res_certFile = resolve E [resolved_outDir E options, ''selfsigned.crt'']\<rparr>),
      w\<lparr>trace := trace w @
         [Exists (resolved_outDir E options),
          ReadTextFile (resolve E [resolved_outDir E options, ''selfsigned.key'']),
          ReadTextFile (resolve E [resolved_outDir E options, ''selfsigned.crt''])]\<rparr>)"
proof -
  obtain es where "stat_at (files w) (locate E (or_else (opt_outDir options) ''selfSignedCerts'')) = Inr (Dir es)"
    using d by (auto simp: is_dir_def locate_resolve split: sum.splits node.splits)
  then show ?thesis using k c
    by (simp add: getSelfSignedCert_def generateOutDirContents_def Let_def host_defs path_simps)
qed

lemma catch_trace:
  "\<exists>rest. trace (snd (getSelfSignedCert E options w))
     = trace (snd (generateOutDirContents E (resolved_outDir E options) options w)) @ rest"
proof (cases "generateOutDirContents E (resolved_outDir E options) options w")
  case (Pair r w')
  then show ?thesis
    by (cases r; cases "remove_at (files w') (locate E (resolved_outDir E options))")
       (simp_all add: getSelfSignedCert_def Let_def await_def throw_def log_def
          Deno_remove_recursive_def)
qed

lemma generation_trace:
  assumes os: "os E = ''darwin''"
    and nf: "stat_at (files w) (locate E (resolved_outDir E options)) = Inl NotFound"
    and run: "run E ''openssl'' (openssl_args E options) = Exited 0 ws"
  shows "\<exists>rest. trace (snd (getSelfSignedCert E options w)) =
     trace w @
       [Exists (resolved_outDir E options),
        EnsureDir (resolved_outDir E options),
        WriteTextFile (resolve E [resolved_outDir E options, ''.gitignore'']) ''**'',
        Command ''openssl'' (openssl_args E options),
        WriteTextFile (resolve E [resolved_outDir E options, ''readme.md''])
          (readme_md
             (default_to ''https://localhost:8080''
                (opt_projectUrl (default_to \<lparr>opt_projectUrl = None\<rparr> (opt_docs options))))
             (default_to ''Self Signed Cert'' (opt_name options)))] @ rest"
proof -
  let ?D = "locate E (or_else (opt_outDir options) ''selfSignedCerts'')"
  have nf': "stat_at (files w) ?D = Inl NotFound" using nf by (simp add: locate_resolve)
  obtain t1 t2 where t: "mkdir_at (files w) ?D = Inr t1"
     "write_at t1 (?D @ [''.gitignore'']) ''**'' = Inr t2"
    using fresh_dir [OF nf'] by blast
  have "\<exists>rest. trace (snd (generateOutDirContents E (resolved_outDir E options) options w)) =
     trace w @
       [Exists (resolved_outDir E options),
        EnsureDir (resolved_outDir E options),
        WriteTextFile (resolve E [resolved_outDir E options, ''.gitignore'']) ''**'',
        Command ''openssl'' (openssl_args E options),
        WriteTextFile (resolve E [resolved_outDir E options, ''readme.md''])
          (readme_md
             (default_to ''https://localhost:8080''
                (opt_projectUrl (default_to \<lparr>opt_projectUrl = None\<rparr> (opt_docs options))))
             (default_to ''Self Signed Cert'' (opt_name options)))] @ rest"
    using os nf' t run
    by (simp add: generateOutDirContents_def Let_def host_defs path_simps
          split: sum.splits node.splits)
  then show ?thesis using catch_trace [of E options w] by auto
qed

lemma empty_outDir_is_absent:
  "getSelfSignedCert E (options\<lparr>opt_outDir := Some []\<rparr>) w
     = getSelfSignedCert E (options\<lparr>opt_outDir := None\<rparr>) w"
  by (simp add: getSelfSignedCert_def generateOutDirContents_def or_else_def)

lemma catch_success:
  "getSelfSignedCert E options w = (Inr v, w') \<Longrightarrow>
     generateOutDirContents E (resolved_outDir E options) options w = (Inr v, w')"
  by (cases "generateOutDirContents E (resolved_outDir E options) options w";
      cases "fst (generateOutDirContents E (resolved_outDir E options) options w)")
     (auto simp: getSelfSignedCert_def Let_def await_def throw_def split: prod.splits sum.splits)

lemma locate_render_locate: "locate E (render (locate E x)) = locate E x"
  by (rule locate_render [OF clean_locate])

text \<open>
  Numbers as JavaScript prints them: integers, a value of 21 digits and the first
  in exponent notation, fractions down to \<^verbatim>\<open>1e-7\<close>, a value beyond the 53 bits
  of the mantissa, a value half way between two shortest decimals, and the values
  that are not finite.
\<close>

lemma toString_integers:
  "Number_toString (number_of_int 0) = ''0''"
  "Number_toString (Finite True 0 0) = ''0''"
  "Number_toString (number_of_int 30) = ''30''"
  "Number_toString (number_of_int (- 12)) = ''-12''"
  "Number_toString (number_of_int (10 ^ 20)) = ''100000000000000000000''"
  "Number_toString (number_of_int (10 ^ 21)) = ''1e+21''"
  "Number_toString (Finite False 1 60) = ''1152921504606847000''"
  "Number_toString (Finite False 2980232238769531 25) = ''1e+23''"
  by code_simp+

lemma toString_fractions:
  "Number_toString (Finite False 1 (- 1)) = ''0.5''"
  "Number_toString (Finite False 3602879701896397 (- 55)) = ''0.1''"
  "Number_toString (Finite False 2448832297382707 (- 49)) = ''4.35''"
  "Number_toString (Finite False 4722366482869645 (- 72)) = ''0.000001''"
  "Number_toString (Finite False 944473296573929 (- 73)) = ''1e-7''"
  "Number_toString (Finite True 5849874349264405 (- 2)) = ''-1462468587316101.2''"
  by code_simp+

lemma toString_not_finite:
  "Number_toString NaN = ''NaN''"
  "Number_toString (Infinity False) = ''Infinity''"
  "Number_toString (Infinity True) = ''-Infinity''"
  by code_simp+

lemma toString_365: "Number_toString (number_of_int 365) = ''365''"
  by code_simp

lemma writes_append: "writes (xs @ ys) = writes xs @ writes ys"
  by (induction xs rule: writes.induct) simp_all

lemma catch_writes:
  "writes (trace (snd (getSelfSignedCert E options w)))
     = writes (trace (snd (generateOutDirContents E (resolved_outDir E options) options w)))"
proof (cases "generateOutDirContents E (resolved_outDir E options) options w")
  case (Pair r w')
  then show ?thesis
    by (cases r; cases "remove_at (files w') (locate E (resolved_outDir E options))")
       (simp_all add: getSelfSignedCert_def Let_def await_def throw_def log_def
          Deno_remove_recursive_def writes_append)
qed

lemma existing_outDir_quiet:
  assumes "stat_at (files w) (locate E (resolved_outDir E options)) \<noteq> Inl NotFound"
  shows "writes (trace (snd (getSelfSignedCert E options w))) = writes (trace w)
       \<and> commands (trace (snd (getSelfSignedCert E options w))) = commands (trace w)"
proof -
  let ?D = "locate E (or_else (opt_outDir options) ''selfSignedCerts'')"
  have "writes (trace (snd (generateOutDirContents E (resolved_outDir E options) options w)))
          = writes (trace w)
      \<and> commands (trace (snd (generateOutDirContents E (resolved_outDir E options) options w)))
          = commands (trace w)"
  proof (cases "stat_at (files w) ?D")
    case (Inl e)
    then have "e \<noteq> NotFound" using assms by (simp add: locate_resolve)
    then show ?thesis using Inl
      by (cases e)
         (simp_all add: generateOutDirContents_def Let_def host_defs path_simps
            writes_append commands_append)
  next
    case (Inr n)
    then show ?thesis
      by (cases n)
         (simp_all add: generateOutDirContents_def Let_def host_defs path_simps
            writes_append commands_append split: sum.splits node.splits)
  qed
  then show ?thesis by (simp add: catch_writes catch_commands)
qed

lemma unsupported_writes:
  assumes "os E \<noteq> ''darwin''"
  shows "writes (trace (snd (getSelfSignedCert E options w))) = writes (trace w)
       \<or> writes (trace (snd (getSelfSignedCert E options w)))
           = writes (trace w) @ [(resolve E [resolved_outDir E options, ''.gitignore''], ''**'')]"
proof (cases "stat_at (files w) (locate E (resolved_outDir E options)) = Inl NotFound")
  case False
  then show ?thesis using existing_outDir_quiet by blast
next
  case True
  let ?D = "locate E (or_else (opt_outDir options) ''selfSignedCerts'')"
  have nf: "stat_at (files w) ?D = Inl NotFound"
    using True by (simp add: locate_resolve)
  obtain t1 t2 where t: "mkdir_at (files w) ?D = Inr t1"
     "write_at t1 (?D @ [''.gitignore'']) ''**'' = Inr t2"
    using fresh_dir [OF nf] by blast
  have "writes (trace (snd (generateOutDirContents E (resolved_outDir E options) options w)))
          = writes (trace w) @ [(resolve E [resolved_outDir E options, ''.gitignore''], ''**'')]"
    using assms nf t
    by (simp add: generateOutDirContents_def Let_def host_defs path_simps writes_append)
  then show ?thesis by (simp add: catch_writes)
qed

lemma gitignore_is_not_readme:
  "resolve E [resolved_outDir E options, ''.gitignore'']
     \<noteq> resolve E [resolved_outDir E options, ''readme.md'']"
proof
  assume "resolve E [resolved_outDir E options, ''.gitignore'']
            = resolve E [resolved_outDir E options, ''readme.md'']"
  then have "locate E (resolve E [resolved_outDir E options, ''.gitignore''])
            = locate E (resolve E [resolved_outDir E options, ''readme.md''])"
    by simp
  then show False by (simp add: path_simps)
qed

lemma join_snoc: "S \<noteq> [] \<Longrightarrow> join sep (S @ [n]) = join sep S @ sep @ n"
  by (induction sep S rule: join.induct) simp_all

lemma render_snoc: "S \<noteq> [] \<Longrightarrow> render (S @ [n]) = render S @ ''/'' @ n"
  by (simp add: render_def join_snoc)

lemma locate_clean_cwd: "clean (cwd E) \<Longrightarrow> locate E (Deno_cwd E) = cwd E"
  by (simp add: Deno_cwd_def locate_render)

lemma resolve_render_child:
  "clean [n] \<Longrightarrow> resolve E [render (locate E x), n] = render (locate E x @ [n])"
  using resolve_child [of n E x] by (simp only: resolve_single)

section \<open>Properties of \<^verbatim>\<open>getSelfSignedCert\<close>\<close>

text \<open>
  In the statements, ``the output directory does not exist'' is
  \<open>stat_at (files w) (locate E (resolved_outDir E options)) = Inl NotFound\<close>;
  ``it exists as a directory'' is \<open>is_dir\<close> at the same location; the supported
  platform is \<open>os E = ''darwin''\<close>, the only one the source generates on.
\<close>

subsection \<open>C1: a failing tool leaves no output directory\<close>

text \<open>
  C1. On the supported platform, when the resolved output directory does not exist
  and the tool exits with a status code \<open>c\<close> other than 0, the call throws the
  error that reports \<open>c\<close>, and afterwards nothing is found at the output directory:
  the last host call made is its recursive removal.
\<close>

theorem tool_failure_removes_outDir:
  assumes "os E = ''darwin''"
    and "stat_at (files w) (locate E (resolved_outDir E options)) = Inl NotFound"
    and "run E ''openssl'' (openssl_args E options) = Exited c ws"
    and "c \<noteq> 0"
  shows "\<exists>w'. getSelfSignedCert E options w =
           (Inl (Error (''openssl exited with status code '' @ String_number c)), w')
         \<and> stat_at (files w') (locate E (resolved_outDir E options)) = Inl NotFound
         \<and> trace w' = trace w @
               [Exists (resolved_outDir E options),
                EnsureDir (resolved_outDir E options),
                WriteTextFile (resolve E [resolved_outDir E options, ''.gitignore'']) ''**'',
                Command ''openssl'' (openssl_args E options),
                Remove (resolved_outDir E options)]"
proof -
  let ?D = "locate E (or_else (opt_outDir options) ''selfSignedCerts'')"
  have nf: "stat_at (files w) ?D = Inl NotFound"
    using assms(2) by (simp add: locate_resolve)
  obtain t1 t2 where t: "mkdir_at (files w) ?D = Inr t1"
     "write_at t1 (?D @ [''.gitignore'']) ''**'' = Inr t2"
     "stat_at t2 ?D = Inr (Dir [(''.gitignore'', File ''**'')])"
    using fresh_dir [OF nf] by blast
  have "is_dir t2 ?D"
    using t(3) by (simp add: is_dir_def)
  then have "is_dir (child_writes E ws t2) ?D"
    by (simp add: child_writes_is_dir)
  then obtain n where "stat_at (child_writes E ws t2) ?D = Inr n"
    by (auto simp: is_dir_def split: sum.splits)
  then obtain t4 where t4: "remove_at (child_writes E ws t2) ?D = Inr t4"
      "stat_at t4 ?D = Inl NotFound"
    using remove_at_existing by blast
  have "getSelfSignedCert E options w =
          (Inl (Error (''openssl exited with status code '' @ String_number c)),
           w\<lparr>files := t4,
             trace := trace w @
               [Exists (resolved_outDir E options),
                EnsureDir (resolved_outDir E options),
                WriteTextFile (resolve E [resolved_outDir E options, ''.gitignore'']) ''**'',
                Command ''openssl'' (openssl_args E options),
                Remove (resolved_outDir E options)]\<rparr>)"
    using assms(1,3,4) nf t t4
    by (simp add: getSelfSignedCert_def generateOutDirContents_def Let_def host_defs path_simps)
  then show ?thesis using t4(2) by (simp add: locate_resolve)
qed

text \<open>
  On a macOS host whose tool exits with status 1, called without options in a
  world where \<^verbatim>\<open>/home/dev\<close> is empty.
\<close>

theorem tool_failure_removes_outDir_witness:
  "os (mac_host (Exited 1 [])) = ''darwin''
   \<and> stat_at (files fresh_world)
        (locate (mac_host (Exited 1 [])) (resolved_outDir (mac_host (Exited 1 [])) no_options))
       = Inl NotFound
   \<and> run (mac_host (Exited 1 [])) ''openssl'' (openssl_args (mac_host (Exited 1 [])) no_options)
       = Exited 1 []
   \<and> (1::int) \<noteq> 0
   \<and> (\<exists>w'. getSelfSignedCert (mac_host (Exited 1 [])) no_options fresh_world =
           (Inl (Error (''openssl exited with status code '' @ String_number 1)), w')
         \<and> stat_at (files w')
              (locate (mac_host (Exited 1 [])) (resolved_outDir (mac_host (Exited 1 [])) no_options))
             = Inl NotFound
         \<and> trace w' = trace fresh_world @
               [Exists (resolved_outDir (mac_host (Exited 1 [])) no_options),
                EnsureDir (resolved_outDir (mac_host (Exited 1 [])) no_options),
                WriteTextFile
                  (resolve (mac_host (Exited 1 []))
                     [resolved_outDir (mac_host (Exited 1 [])) no_options, ''.gitignore'']) ''**'',
                Command ''openssl'' (openssl_args (mac_host (Exited 1 [])) no_options),
                Remove (resolved_outDir (mac_host (Exited 1 [])) no_options)])"
proof -
  have h1: "os (mac_host (Exited 1 [])) = ''darwin''"
    by (simp add: mac_host_def)
  have h2: "stat_at (files fresh_world)
      (locate (mac_host (Exited 1 [])) (resolved_outDir (mac_host (Exited 1 [])) no_options))
      = Inl NotFound"
    by code_simp
  have h3: "run (mac_host (Exited 1 [])) ''openssl'' (openssl_args (mac_host (Exited 1 [])) no_options)
      = Exited 1 []"
    by (simp add: mac_host_def)
  have h4: "(1::int) \<noteq> 0" by simp
  show ?thesis
    using h1 h2 h3 h4 tool_failure_removes_outDir [OF h1 h2 h3 h4] by blast
qed

subsection \<open>C2: a second call reads back what the first returned\<close>

text \<open>
  C2. When a call returns a result, the same call made again in the world the first
  one left returns the same result (the same key and certificate text, and the same
  paths); it only checks that the directory exists and reads the two files, so no
  tool is spawned and nothing is generated.
\<close>

theorem second_call_reads_back:
  assumes "getSelfSignedCert E options w = (Inr (Some r), w1)"
  shows "getSelfSignedCert E options w1 =
     (Inr (Some r),
      w1\<lparr>trace := trace w1 @
         [Exists (resolved_outDir E options),
          ReadTextFile (resolve E [resolved_outDir E options, ''selfsigned.key'']),
          ReadTextFile (resolve E [resolved_outDir E options, ''selfsigned.crt''])]\<rparr>)"
proof -
  have g: "generateOutDirContents E (resolved_outDir E options) options w = (Inr (Some r), w1)"
    using assms by (rule catch_success)
  note s = generate_success [OF g]
  have r: "r = \<lparr>res_outDir = resolved_outDir E options, res_key = res_key r, res_cert = res_cert r,
                 res_keyFile = resolve E [resolved_outDir E options, ''selfsigned.key''],
                 res_certFile = resolve E [resolved_outDir E options, ''selfsigned.crt'']\<rparr>"
    using s by (cases r) (simp add: path_simps)
  have "getSelfSignedCert E options w1 =
     (Inr (Some \<lparr>res_outDir = resolved_outDir E options, res_key = res_key r, res_cert = res_cert r,
                 res_keyFile = resolve E [resolved_outDir E options, ''selfsigned.key''],
                 res_certFile = resolve E [resolved_outDir E options, ''selfsigned.crt'']\<rparr>),
      w1\<lparr>trace := trace w1 @
         [Exists (resolved_outDir E options),
          ReadTextFile (resolve E [resolved_outDir E options, ''selfsigned.key'']),
          ReadTextFile (resolve E [resolved_outDir E options, ''selfsigned.crt''])]\<rparr>)"
    using s by (intro cache_hit_run) (simp_all add: path_simps)
  then show ?thesis using r by simp
qed

text \<open>
  The first call generates in an empty \<^verbatim>\<open>/home/dev\<close> with a tool that writes the
  key and the certificate; the second call starts from the world the first left.
\<close>

theorem second_call_reads_back_witness:
  "getSelfSignedCert openssl_host no_options fresh_world =
     (Inr (Some \<lparr>res_outDir = ''/home/dev/selfSignedCerts'', res_key = ''KEY'', res_cert = ''CERT'',
                 res_keyFile = ''/home/dev/selfSignedCerts/selfsigned.key'',
                 res_certFile = ''/home/dev/selfSignedCerts/selfsigned.crt''\<rparr>),
      snd (getSelfSignedCert openssl_host no_options fresh_world))
   \<and> getSelfSignedCert openssl_host no_options
        (snd (getSelfSignedCert openssl_host no_options fresh_world)) =
     (Inr (Some \<lparr>res_outDir = ''/home/dev/selfSignedCerts'', res_key = ''KEY'', res_cert = ''CERT'',
                 res_keyFile = ''/home/dev/selfSignedCerts/selfsigned.key'',
                 res_certFile = ''/home/dev/selfSignedCerts/selfsigned.crt''\<rparr>),
      (snd (getSelfSignedCert openssl_host no_options fresh_world))
        \<lparr>trace := trace (snd (getSelfSignedCert openssl_host no_options fresh_world)) @
           [Exists (resolved_outDir openssl_host no_options),
            ReadTextFile (resolve openssl_host [resolved_outDir openssl_host no_options, ''selfsigned.key'']),
            ReadTextFile (resolve openssl_host [resolved_outDir openssl_host no_options, ''selfsigned.crt''])]\<rparr>)"
proof -
  have "fst (getSelfSignedCert openssl_host no_options fresh_world) =
     Inr (Some \<lparr>res_outDir = ''/home/dev/selfSignedCerts'', res_key = ''KEY'', res_cert = ''CERT'',
                 res_keyFile = ''/home/dev/selfSignedCerts/selfsigned.key'',
                 res_certFile = ''/home/dev/selfSignedCerts/selfsigned.crt''\<rparr>)"
    by code_simp
  then have h: "getSelfSignedCert openssl_host no_options fresh_world =
     (Inr (Some \<lparr>res_outDir = ''/home/dev/selfSignedCerts'', res_key = ''KEY'', res_cert = ''CERT'',
                 res_keyFile = ''/home/dev/selfSignedCerts/selfsigned.key'',
                 res_certFile = ''/home/dev/selfSignedCerts/selfsigned.crt''\<rparr>),
      snd (getSelfSignedCert openssl_host no_options fresh_world))"
    by (simp add: prod_eq_iff)
  show ?thesis using h second_call_reads_back [OF h] by (intro conjI)
qed

subsection \<open>C3: an unsupported platform keeps the directory with its marker file\<close>

text \<open>
  C3. On any platform other than the supported one, when the resolved output
  directory does not exist, the call returns \<^verbatim>\<open>null\<close> without an error, and
  afterwards the output directory is a directory whose only entry is
  \<^verbatim>\<open>.gitignore\<close> with the text \<^verbatim>\<open>**\<close>. The call creates the directory,
  writes the marker file and prints a diagnostic; it spawns nothing and removes
  nothing.
\<close>

theorem unsupported_platform_keeps_gitignore:
  assumes "os E \<noteq> ''darwin''"
    and "stat_at (files w) (locate E (resolved_outDir E options)) = Inl NotFound"
  shows "\<exists>w'. getSelfSignedCert E options w = (Inr None, w')
         \<and> stat_at (files w') (locate E (resolved_outDir E options))
             = Inr (Dir [(''.gitignore'', File ''**'')])
         \<and> trace w' = trace w @
               [Exists (resolved_outDir E options),
                EnsureDir (resolved_outDir E options),
                WriteTextFile (resolve E [resolved_outDir E options, ''.gitignore'']) ''**'',
                ConsoleError ''Creating self signed certificates is not supported on this platform.'']"
proof -
  let ?D = "locate E (or_else (opt_outDir options) ''selfSignedCerts'')"
  have nf: "stat_at (files w) ?D = Inl NotFound"
    using assms(2) by (simp add: locate_resolve)
  obtain t1 t2 where t: "mkdir_at (files w) ?D = Inr t1"
     "write_at t1 (?D @ [''.gitignore'']) ''**'' = Inr t2"
     "stat_at t2 ?D = Inr (Dir [(''.gitignore'', File ''**'')])"
    using fresh_dir [OF nf] by blast
  have "getSelfSignedCert E options w =
          (Inr None,
           w\<lparr>files := t2,
             trace := trace w @
               [Exists (resolved_outDir E options),
                EnsureDir (resolved_outDir E options),
                WriteTextFile (resolve E [resolved_outDir E options, ''.gitignore'']) ''**'',
                ConsoleError ''Creating self signed certificates is not supported on this platform.'']\<rparr>)"
    using assms(1) nf t
    by (simp add: getSelfSignedCert_def generateOutDirContents_def Let_def host_defs path_simps)
  then show ?thesis using t(3) by (simp add: locate_resolve)
qed

text \<open>On a Linux host, called without options in a world where \<^verbatim>\<open>/home/dev\<close> is empty.\<close>

theorem unsupported_platform_keeps_gitignore_witness:
  "os linux_host \<noteq> ''darwin''
   \<and> stat_at (files fresh_world) (locate linux_host (resolved_outDir linux_host no_options))
       = Inl NotFound
   \<and> (\<exists>w'. getSelfSignedCert linux_host no_options fresh_world = (Inr None, w')
         \<and> stat_at (files w') (locate linux_host (resolved_outDir linux_host no_options))
             = Inr (Dir [(''.gitignore'', File ''**'')])
         \<and> trace w' = trace fresh_world @
               [Exists (resolved_outDir linux_host no_options),
                EnsureDir (resolved_outDir linux_host no_options),
                WriteTextFile
                  (resolve linux_host [resolved_outDir linux_host no_options, ''.gitignore'']) ''**'',
                ConsoleError ''Creating self signed certificates is not supported on this platform.''])"
proof -
  have h1: "os linux_host \<noteq> ''darwin''"
    by (simp add: linux_host_def)
  have h2: "stat_at (files fresh_world) (locate linux_host (resolved_outDir linux_host no_options))
      = Inl NotFound"
    by code_simp
  show ?thesis
    using h1 h2 unsupported_platform_keeps_gitignore [OF h1 h2] by (intro conjI)
qed

subsection \<open>C4: the subjectAltName argument\<close>

text \<open>
  C4. On the generation path of the supported platform the call spawns exactly one
  child process, \<^verbatim>\<open>openssl\<close>; the argument after \<^verbatim>\<open>-addext\<close> is the single
  string \<^verbatim>\<open>subjectAltName = \<close> followed by \<^verbatim>\<open>DNS:localhost\<close>,
  \<^verbatim>\<open>IP:127.0.0.1\<close>, \<^verbatim>\<open>IP:0.0.0.0\<close> and then every entry of \<^verbatim>\<open>extraAltNames\<close>
  as given, joined by commas.
\<close>

theorem subjectAltName_argument:
  assumes "os E = ''darwin''"
    and "stat_at (files w) (locate E (resolved_outDir E options)) = Inl NotFound"
  shows "\<exists>args. commands (trace (snd (getSelfSignedCert E options w)))
                  = commands (trace w) @ [(''openssl'', args)]
           \<and> args ! 12 = ''-addext''
           \<and> args ! 13 = ''subjectAltName = '' @
                join '','' (''DNS:localhost'' # ''IP:127.0.0.1'' # ''IP:0.0.0.0''
                            # default_to [] (opt_extraAltNames options))"
  using generation_commands [OF assms] by simp

text \<open>
  With extra names that repeat an entry and one of the fixed names: all of them
  appear, in the order given.
\<close>

theorem subjectAltName_argument_witness:
  "os openssl_host = ''darwin''
   \<and> stat_at (files fresh_world) (locate openssl_host (resolved_outDir openssl_host dev_options))
       = Inl NotFound
   \<and> (\<exists>args. commands (trace (snd (getSelfSignedCert openssl_host dev_options fresh_world)))
                  = commands (trace fresh_world) @ [(''openssl'', args)]
           \<and> args ! 12 = ''-addext''
           \<and> args ! 13 =
               ''subjectAltName = DNS:localhost,IP:127.0.0.1,IP:0.0.0.0,DNS:dev.local,IP:127.0.0.1,DNS:dev.local'')"
proof -
  have h1: "os openssl_host = ''darwin''"
    by (simp add: openssl_host_def)
  have h2: "stat_at (files fresh_world) (locate openssl_host (resolved_outDir openssl_host dev_options))
      = Inl NotFound"
    by code_simp
  have e: "''subjectAltName = '' @
                join '','' (''DNS:localhost'' # ''IP:127.0.0.1'' # ''IP:0.0.0.0''
                            # default_to [] (opt_extraAltNames dev_options))
      = ''subjectAltName = DNS:localhost,IP:127.0.0.1,IP:0.0.0.0,DNS:dev.local,IP:127.0.0.1,DNS:dev.local''"
    by code_simp
  show ?thesis
    using h1 h2 subjectAltName_argument [OF h1 h2, of] unfolding e by (intro conjI)
qed


subsection \<open>C5: the defaults of an empty options object\<close>

text \<open>
  C5. Called with an empty options object on the generation path of the supported
  platform, with a tool that exits with status 0, the call uses the output
  directory \<^verbatim>\<open>selfSignedCerts\<close> below the working directory (as an absolute
  path), the subject \<^verbatim>\<open>/CN=Self Signed Cert\<close>, 365 days, and writes the readme
  for the project URL \<^verbatim>\<open>https://localhost:8080\<close>. For a working directory
  other than the root, the output directory is the working directory followed by
  \<^verbatim>\<open>/selfSignedCerts\<close>.
\<close>

theorem empty_options_defaults:
  assumes "os E = ''darwin''"
    and "stat_at (files w) (locate E (Deno_cwd E) @ [''selfSignedCerts'']) = Inl NotFound"
    and "run E ''openssl'' (openssl_args E no_options) = Exited 0 ws"
  shows "(\<exists>rest. trace (snd (getSelfSignedCert E no_options w)) =
     trace w @
       [Exists (render (locate E (Deno_cwd E) @ [''selfSignedCerts''])),
        EnsureDir (render (locate E (Deno_cwd E) @ [''selfSignedCerts''])),
        WriteTextFile (render (locate E (Deno_cwd E) @ [''selfSignedCerts'', ''.gitignore''])) ''**'',
        Command ''openssl''
          [''req'', ''-newkey'', ''rsa:4096'', ''-x509'', ''-nodes'',
           ''-keyout'', render (locate E (Deno_cwd E) @ [''selfSignedCerts'', ''selfsigned.key'']),
           ''-new'',
           ''-out'', render (locate E (Deno_cwd E) @ [''selfSignedCerts'', ''selfsigned.crt'']),
           ''-subj'', ''/CN=Self Signed Cert'',
           ''-addext'', ''subjectAltName = DNS:localhost,IP:127.0.0.1,IP:0.0.0.0'',
           ''-sha256'',
           ''-days'', ''365''],
        WriteTextFile (render (locate E (Deno_cwd E) @ [''selfSignedCerts'', ''readme.md'']))
          (readme_md ''https://localhost:8080'' ''Self Signed Cert'')] @ rest)
   \<and> (clean (cwd E) \<and> cwd E \<noteq> [] \<longrightarrow>
        render (locate E (Deno_cwd E) @ [''selfSignedCerts'']) = Deno_cwd E @ ''/selfSignedCerts'')"
proof -
  have o: "or_else (opt_outDir no_options) ''selfSignedCerts'' = ''selfSignedCerts''"
    by (simp add: no_options_def or_else_def)
  have l: "locate E ''selfSignedCerts'' = locate E (Deno_cwd E) @ [''selfSignedCerts'']"
    by (rule locate_relative) (simp add: clean_def)
  have nf: "stat_at (files w) (locate E (resolved_outDir E no_options)) = Inl NotFound"
    using assms(2) by (simp add: o l locate_resolve)
  have child: "resolve E [resolved_outDir E no_options, n]
                 = render (locate E (Deno_cwd E) @ [''selfSignedCerts'', n])"
    if "clean [n]" for n
    using that by (simp add: o l resolve_child)
  have dir: "resolved_outDir E no_options = render (locate E (Deno_cwd E) @ [''selfSignedCerts''])"
    by (simp add: o l resolve_single)
  have d: "default_to ''Self Signed Cert'' (opt_name no_options) = ''Self Signed Cert''"
    "default_to [] (opt_extraAltNames no_options) = []"
    "default_to (number_of_int 365) (opt_days no_options) = number_of_int 365"
    "default_to ''https://localhost:8080''
       (opt_projectUrl (default_to \<lparr>opt_projectUrl = None\<rparr> (opt_docs no_options)))
     = ''https://localhost:8080''"
    by (simp_all add: no_options_def default_to_def)
  note g = generation_trace [OF assms(1) nf assms(3)]
  note g1 = g [unfolded child [of "''.gitignore''", simplified clean_def, simplified]
                 child [of "''selfsigned.key''", simplified clean_def, simplified]
                 child [of "''selfsigned.crt''", simplified clean_def, simplified]
                 child [of "''readme.md''", simplified clean_def, simplified]]
  note g2 = g1 [unfolded dir d toString_365]
  have first: "\<exists>rest. trace (snd (getSelfSignedCert E no_options w)) =
     trace w @
       [Exists (render (locate E (Deno_cwd E) @ [''selfSignedCerts''])),
        EnsureDir (render (locate E (Deno_cwd E) @ [''selfSignedCerts''])),
        WriteTextFile (render (locate E (Deno_cwd E) @ [''selfSignedCerts'', ''.gitignore''])) ''**'',
        Command ''openssl''
          [''req'', ''-newkey'', ''rsa:4096'', ''-x509'', ''-nodes'',
           ''-keyout'', render (locate E (Deno_cwd E) @ [''selfSignedCerts'', ''selfsigned.key'']),
           ''-new'',
           ''-out'', render (locate E (Deno_cwd E) @ [''selfSignedCerts'', ''selfsigned.crt'']),
           ''-subj'', ''/CN=Self Signed Cert'',
           ''-addext'', ''subjectAltName = DNS:localhost,IP:127.0.0.1,IP:0.0.0.0'',
           ''-sha256'',
           ''-days'', ''365''],
        WriteTextFile (render (locate E (Deno_cwd E) @ [''selfSignedCerts'', ''readme.md'']))
          (readme_md ''https://localhost:8080'' ''Self Signed Cert'')] @ rest"
    using g2 by simp
  have second: "clean (cwd E) \<and> cwd E \<noteq> [] \<longrightarrow>
        render (locate E (Deno_cwd E) @ [''selfSignedCerts'']) = Deno_cwd E @ ''/selfSignedCerts''"
  proof
    assume a: "clean (cwd E) \<and> cwd E \<noteq> []"
    then have "locate E (Deno_cwd E) = cwd E"
      by (simp add: locate_clean_cwd)
    then have "render (locate E (Deno_cwd E) @ [''selfSignedCerts''])
                 = render (cwd E @ [''selfSignedCerts''])"
      by simp
    also have "\<dots> = render (cwd E) @ ''/selfSignedCerts''"
      using a by (simp add: render_snoc)
    finally show "render (locate E (Deno_cwd E) @ [''selfSignedCerts''])
                    = Deno_cwd E @ ''/selfSignedCerts''"
      by (simp add: Deno_cwd_def)
  qed
  show ?thesis using first second by (intro conjI)
qed

text \<open>On a macOS host with the working directory \<^verbatim>\<open>/home/dev\<close>.\<close>

theorem empty_options_defaults_witness:
  "os openssl_host = ''darwin''
   \<and> stat_at (files fresh_world) (locate openssl_host (Deno_cwd openssl_host) @ [''selfSignedCerts''])
       = Inl NotFound
   \<and> run openssl_host ''openssl'' (openssl_args openssl_host no_options)
       = Exited 0 [(''/home/dev/selfSignedCerts/selfsigned.key'', ''KEY''),
                   (''/home/dev/selfSignedCerts/selfsigned.crt'', ''CERT'')]
   \<and> clean (cwd openssl_host) \<and> cwd openssl_host \<noteq> []
   \<and> (\<exists>rest. trace (snd (getSelfSignedCert openssl_host no_options fresh_world)) =
     trace fresh_world @
       [Exists (render (locate openssl_host (Deno_cwd openssl_host) @ [''selfSignedCerts''])),
        EnsureDir (render (locate openssl_host (Deno_cwd openssl_host) @ [''selfSignedCerts''])),
        WriteTextFile (render (locate openssl_host (Deno_cwd openssl_host) @ [''selfSignedCerts'', ''.gitignore''])) ''**'',
        Command ''openssl''
          [''req'', ''-newkey'', ''rsa:4096'', ''-x509'', ''-nodes'',
           ''-keyout'', render (locate openssl_host (Deno_cwd openssl_host) @ [''selfSignedCerts'', ''selfsigned.key'']),
           ''-new'',
           ''-out'', render (locate openssl_host (Deno_cwd openssl_host) @ [''selfSignedCerts'', ''selfsigned.crt'']),
           ''-subj'', ''/CN=Self Signed Cert'',
           ''-addext'', ''subjectAltName = DNS:localhost,IP:127.0.0.1,IP:0.0.0.0'',
           ''-sha256'',
           ''-days'', ''365''],
        WriteTextFile (render (locate openssl_host (Deno_cwd openssl_host) @ [''selfSignedCerts'', ''readme.md'']))
          (readme_md ''https://localhost:8080'' ''Self Signed Cert'')] @ rest)
   \<and> render (locate openssl_host (Deno_cwd openssl_host) @ [''selfSignedCerts''])
       = Deno_cwd openssl_host @ ''/selfSignedCerts''
   \<and> Deno_cwd openssl_host @ ''/selfSignedCerts'' = ''/home/dev/selfSignedCerts''"
proof -
  have h1: "os openssl_host = ''darwin''"
    by (simp add: openssl_host_def)
  have h2: "stat_at (files fresh_world) (locate openssl_host (Deno_cwd openssl_host) @ [''selfSignedCerts''])
      = Inl NotFound"
    by code_simp
  have h3: "run openssl_host ''openssl'' (openssl_args openssl_host no_options)
      = Exited 0 [(''/home/dev/selfSignedCerts/selfsigned.key'', ''KEY''),
                  (''/home/dev/selfSignedCerts/selfsigned.crt'', ''CERT'')]"
    by code_simp
  have h4: "clean (cwd openssl_host) \<and> cwd openssl_host \<noteq> []"
    by (simp add: openssl_host_def clean_def)
  have p: "Deno_cwd openssl_host @ ''/selfSignedCerts'' = ''/home/dev/selfSignedCerts''"
    by code_simp
  show ?thesis
    using h1 h2 h3 h4 p empty_options_defaults [OF h1 h2 h3] by (intro conjI) blast+
qed

subsection \<open>C6: the arguments of the tool\<close>

text \<open>
  C6. On the generation path of the supported platform the call spawns exactly one
  child process, \<^verbatim>\<open>openssl\<close>, with the arguments \<^verbatim>\<open>req -newkey rsa:4096 -x509
  -nodes -keyout <keyFile> -new -out <certFile> -subj /CN=<name> -addext
  "subjectAltName = <alt names joined by commas>" -sha256 -days <days>\<close>, where the
  key file and the certificate file are \<^verbatim>\<open>selfsigned.key\<close> and
  \<^verbatim>\<open>selfsigned.crt\<close> resolved against the output directory, and the last
  argument is \<^verbatim>\<open>String(days)\<close>, the number of days as JavaScript prints it.
\<close>

theorem openssl_invocation:
  assumes "os E = ''darwin''"
    and "stat_at (files w) (locate E (resolved_outDir E options)) = Inl NotFound"
  shows "commands (trace (snd (getSelfSignedCert E options w))) =
     commands (trace w) @
       [(''openssl'',
         [''req'', ''-newkey'', ''rsa:4096'', ''-x509'', ''-nodes'',
          ''-keyout'', resolve E [resolved_outDir E options, ''selfsigned.key''],
          ''-new'',
          ''-out'', resolve E [resolved_outDir E options, ''selfsigned.crt''],
          ''-subj'', ''/CN='' @ default_to ''Self Signed Cert'' (opt_name options),
          ''-addext'',
          ''subjectAltName = '' @
             join '','' ([''DNS:localhost'', ''IP:127.0.0.1'', ''IP:0.0.0.0'']
                        @ default_to [] (opt_extraAltNames options)),
          ''-sha256'',
          ''-days'', Number_toString (default_to (number_of_int 365) (opt_days options))])]"
  using assms by (rule generation_commands)

text \<open>
  On a macOS host with the working directory \<^verbatim>\<open>/home/dev\<close>: the request
  \<^verbatim>\<open>{name: "Test", outDir: "./tmpcerts", days: 30}\<close> with extra alt names, and
  requests whose \<^verbatim>\<open>days\<close> is \<^verbatim>\<open>1e21\<close>, \<^verbatim>\<open>0.5\<close> and \<^verbatim>\<open>NaN\<close>.
\<close>

theorem openssl_invocation_witness:
  "os (mac_host (Exited 1 [])) = ''darwin''
   \<and> stat_at (files fresh_world)
        (locate (mac_host (Exited 1 [])) (resolved_outDir (mac_host (Exited 1 [])) dev_options))
       = Inl NotFound
   \<and> commands (trace (snd (getSelfSignedCert (mac_host (Exited 1 [])) dev_options fresh_world))) =
       commands (trace fresh_world) @
       [(''openssl'',
         [''req'', ''-newkey'', ''rsa:4096'', ''-x509'', ''-nodes'',
          ''-keyout'', ''/home/dev/tmpcerts/selfsigned.key'',
          ''-new'',
          ''-out'', ''/home/dev/tmpcerts/selfsigned.crt'',
          ''-subj'', ''/CN=Test'',
          ''-addext'',
          ''subjectAltName = DNS:localhost,IP:127.0.0.1,IP:0.0.0.0,DNS:dev.local,IP:127.0.0.1,DNS:dev.local'',
          ''-sha256'',
          ''-days'', ''30''])]
   \<and> stat_at (files fresh_world)
        (locate (mac_host (Exited 1 [])) (resolved_outDir (mac_host (Exited 1 [])) (no_options\<lparr>opt_days := Some (number_of_int (10 ^ 21))\<rparr>)))
       = Inl NotFound
   \<and> commands (trace (snd (getSelfSignedCert (mac_host (Exited 1 [])) (no_options\<lparr>opt_days := Some (number_of_int (10 ^ 21))\<rparr>) fresh_world))) =
       commands (trace fresh_world) @
       [(''openssl'',
         [''req'', ''-newkey'', ''rsa:4096'', ''-x509'', ''-nodes'',
          ''-keyout'', ''/home/dev/selfSignedCerts/selfsigned.key'',
          ''-new'',
          ''-out'', ''/home/dev/selfSignedCerts/selfsigned.crt'',
          ''-subj'', ''/CN=Self Signed Cert'',
          ''-addext'',
          ''subjectAltName = DNS:localhost,IP:127.0.0.1,IP:0.0.0.0'',
          ''-sha256'',
          ''-days'', ''1e+21''])]
   \<and> stat_at (files fresh_world)
        (locate (mac_host (Exited 1 [])) (resolved_outDir (mac_host (Exited 1 [])) (no_options\<lparr>opt_days := Some (Finite False 1 (- 1))\<rparr>)))
       = Inl NotFound
   \<and> commands (trace (snd (getSelfSignedCert (mac_host (Exited 1 [])) (no_options\<lparr>opt_days := Some (Finite False 1 (- 1))\<rparr>) fresh_world))) =
       commands (trace fresh_world) @
       [(''openssl'',
         [''req'', ''-newkey'', ''rsa:4096'', ''-x509'', ''-nodes'',
          ''-keyout'', ''/home/dev/selfSignedCerts/selfsigned.key'',
          ''-new'',
          ''-out'', ''/home/dev/selfSignedCerts/selfsigned.crt'',
          ''-subj'', ''/CN=Self Signed Cert'',
          ''-addext'',
          ''subjectAltName = DNS:localhost,IP:127.0.0.1,IP:0.0.0.0'',
          ''-sha256'',
          ''-days'', ''0.5''])]
   \<and> stat_at (files fresh_world)
        (locate (mac_host (Exited 1 [])) (resolved_outDir (mac_host (Exited 1 [])) (no_options\<lparr>opt_days := Some NaN\<rparr>)))
       = Inl NotFound
   \<and> commands (trace (snd (getSelfSignedCert (mac_host (Exited 1 [])) (no_options\<lparr>opt_days := Some NaN\<rparr>) fresh_world))) =
       commands (trace fresh_world) @
       [(''openssl'',
         [''req'', ''-newkey'', ''rsa:4096'', ''-x509'', ''-nodes'',
          ''-keyout'', ''/home/dev/selfSignedCerts/selfsigned.key'',
          ''-new'',
          ''-out'', ''/home/dev/selfSignedCerts/selfsigned.crt'',
          ''-subj'', ''/CN=Self Signed Cert'',
          ''-addext'',
          ''subjectAltName = DNS:localhost,IP:127.0.0.1,IP:0.0.0.0'',
          ''-sha256'',
          ''-days'', ''NaN''])]"
proof -
  have h1: "os (mac_host (Exited 1 [])) = ''darwin''"
    by (simp add: mac_host_def)
  have n0: "stat_at (files fresh_world)
        (locate (mac_host (Exited 1 [])) (resolved_outDir (mac_host (Exited 1 [])) dev_options))
       = Inl NotFound"
    by code_simp
  have e0: "openssl_args (mac_host (Exited 1 [])) dev_options =
         [''req'', ''-newkey'', ''rsa:4096'', ''-x509'', ''-nodes'',
          ''-keyout'', ''/home/dev/tmpcerts/selfsigned.key'',
          ''-new'',
          ''-out'', ''/home/dev/tmpcerts/selfsigned.crt'',
          ''-subj'', ''/CN=Test'',
          ''-addext'',
          ''subjectAltName = DNS:localhost,IP:127.0.0.1,IP:0.0.0.0,DNS:dev.local,IP:127.0.0.1,DNS:dev.local'',
          ''-sha256'',
          ''-days'', ''30'']"
    by code_simp
  note t0 = openssl_invocation [OF h1 n0, unfolded e0]
  have n1: "stat_at (files fresh_world)
        (locate (mac_host (Exited 1 [])) (resolved_outDir (mac_host (Exited 1 [])) (no_options\<lparr>opt_days := Some (number_of_int (10 ^ 21))\<rparr>)))
       = Inl NotFound"
    by code_simp
  have e1: "openssl_args (mac_host (Exited 1 [])) (no_options\<lparr>opt_days := Some (number_of_int (10 ^ 21))\<rparr>) =
         [''req'', ''-newkey'', ''rsa:4096'', ''-x509'', ''-nodes'',
          ''-keyout'', ''/home/dev/selfSignedCerts/selfsigned.key'',
          ''-new'',
          ''-out'', ''/home/dev/selfSignedCerts/selfsigned.crt'',
          ''-subj'', ''/CN=Self Signed Cert'',
          ''-addext'',
          ''subjectAltName = DNS:localhost,IP:127.0.0.1,IP:0.0.0.0'',
          ''-sha256'',
          ''-days'', ''1e+21'']"
    by code_simp
  note t1 = openssl_invocation [OF h1 n1, unfolded e1]
  have n2: "stat_at (files fresh_world)
        (locate (mac_host (Exited 1 [])) (resolved_outDir (mac_host (Exited 1 [])) (no_options\<lparr>opt_days := Some (Finite False 1 (- 1))\<rparr>)))
       = Inl NotFound"
    by code_simp
  have e2: "openssl_args (mac_host (Exited 1 [])) (no_options\<lparr>opt_days := Some (Finite False 1 (- 1))\<rparr>) =
         [''req'', ''-newkey'', ''rsa:4096'', ''-x509'', ''-nodes'',
          ''-keyout'', ''/home/dev/selfSignedCerts/selfsigned.key'',
          ''-new'',
          ''-out'', ''/home/dev/selfSignedCerts/selfsigned.crt'',
          ''-subj'', ''/CN=Self Signed Cert'',
          ''-addext'',
          ''subjectAltName = DNS:localhost,IP:127.0.0.1,IP:0.0.0.0'',
          ''-sha256'',
          ''-days'', ''0.5'']"
    by code_simp
  note t2 = openssl_invocation [OF h1 n2, unfolded e2]
  have n3: "stat_at (files fresh_world)
        (locate (mac_host (Exited 1 [])) (resolved_outDir (mac_host (Exited 1 [])) (no_options\<lparr>opt_days := Some NaN\<rparr>)))
       = Inl NotFound"
    by code_simp
  have e3: "openssl_args (mac_host (Exited 1 [])) (no_options\<lparr>opt_days := Some NaN\<rparr>) =
         [''req'', ''-newkey'', ''rsa:4096'', ''-x509'', ''-nodes'',
          ''-keyout'', ''/home/dev/selfSignedCerts/selfsigned.key'',
          ''-new'',
          ''-out'', ''/home/dev/selfSignedCerts/selfsigned.crt'',
          ''-subj'', ''/CN=Self Signed Cert'',
          ''-addext'',
          ''subjectAltName = DNS:localhost,IP:127.0.0.1,IP:0.0.0.0'',
          ''-sha256'',
          ''-days'', ''NaN'']"
    by code_simp
  note t3 = openssl_invocation [OF h1 n3, unfolded e3]
  show ?thesis
    using h1 n0 t0 n1 t1 n2 t2 n3 t3 by (intro conjI)
qed

subsection \<open>C7: an existing output directory is only read\<close>

text \<open>
  C7, as amended. When the resolved output directory already exists as a directory,
  the call writes no file (so no readme) and spawns no tool; when moreover the key
  file and the certificate file can both be read, it returns them and leaves the
  world as it was but for three entries of the trace: the existence check and the
  two reads. A readme is written only on the generation path of the supported
  platform: on any other platform, or when something is found at the output
  directory, the files written by the call do not include \<^verbatim>\<open>readme.md\<close>.
\<close>

theorem cache_hit_reads_only:
  "(is_dir (files w) (locate E (resolved_outDir E options)) \<longrightarrow>
      writes (trace (snd (getSelfSignedCert E options w))) = writes (trace w)
      \<and> commands (trace (snd (getSelfSignedCert E options w))) = commands (trace w))
   \<and> (is_dir (files w) (locate E (resolved_outDir E options))
       \<and> Deno_readTextFile E (resolve E [resolved_outDir E options, ''selfsigned.key'']) w
           = (Inr key, wk)
       \<and> Deno_readTextFile E (resolve E [resolved_outDir E options, ''selfsigned.crt'']) w
           = (Inr cert, wc) \<longrightarrow>
      getSelfSignedCert E options w =
        (Inr (Some \<lparr>res_outDir = resolved_outDir E options, res_key = key, res_cert = cert,
                    res_keyFile = resolve E [resolved_outDir E options, ''selfsigned.key''],
                    res_certFile = resolve E [resolved_outDir E options, ''selfsigned.crt'']\<rparr>),
         w\<lparr>trace := trace w @
            [Exists (resolved_outDir E options),
             ReadTextFile (resolve E [resolved_outDir E options, ''selfsigned.key'']),
             ReadTextFile (resolve E [resolved_outDir E options, ''selfsigned.crt''])]\<rparr>))
   \<and> (os E \<noteq> ''darwin''
       \<or> stat_at (files w) (locate E (resolved_outDir E options)) \<noteq> Inl NotFound \<longrightarrow>
      (\<exists>ws. writes (trace (snd (getSelfSignedCert E options w))) = writes (trace w) @ ws
            \<and> (\<forall>d. (resolve E [resolved_outDir E options, ''readme.md''], d) \<notin> set ws)))"
proof (intro conjI impI)
  assume "is_dir (files w) (locate E (resolved_outDir E options))"
  then have "stat_at (files w) (locate E (resolved_outDir E options)) \<noteq> Inl NotFound"
    by (auto simp: is_dir_def)
  then show "writes (trace (snd (getSelfSignedCert E options w))) = writes (trace w)"
    and "commands (trace (snd (getSelfSignedCert E options w))) = commands (trace w)"
    using existing_outDir_quiet by blast+
next
  assume a: "is_dir (files w) (locate E (resolved_outDir E options))
       \<and> Deno_readTextFile E (resolve E [resolved_outDir E options, ''selfsigned.key'']) w
           = (Inr key, wk)
       \<and> Deno_readTextFile E (resolve E [resolved_outDir E options, ''selfsigned.crt'']) w
           = (Inr cert, wc)"
  have k: "stat_at (files w) (locate E (resolved_outDir E options) @ [''selfsigned.key''])
             = Inr (File key)"
    using read_Inr [OF a [THEN conjunct2, THEN conjunct1]] by (simp add: path_simps)
  have c: "stat_at (files w) (locate E (resolved_outDir E options) @ [''selfsigned.crt''])
             = Inr (File cert)"
    using read_Inr [OF a [THEN conjunct2, THEN conjunct2]] by (simp add: path_simps)
  show "getSelfSignedCert E options w =
        (Inr (Some \<lparr>res_outDir = resolved_outDir E options, res_key = key, res_cert = cert,
                    res_keyFile = resolve E [resolved_outDir E options, ''selfsigned.key''],
                    res_certFile = resolve E [resolved_outDir E options, ''selfsigned.crt'']\<rparr>),
         w\<lparr>trace := trace w @
            [Exists (resolved_outDir E options),
             ReadTextFile (resolve E [resolved_outDir E options, ''selfsigned.key'']),
             ReadTextFile (resolve E [resolved_outDir E options, ''selfsigned.crt''])]\<rparr>)"
    using a k c by (intro cache_hit_run) simp_all
next
  assume "os E \<noteq> ''darwin''
       \<or> stat_at (files w) (locate E (resolved_outDir E options)) \<noteq> Inl NotFound"
  then consider
      "writes (trace (snd (getSelfSignedCert E options w))) = writes (trace w)"
    | "writes (trace (snd (getSelfSignedCert E options w)))
         = writes (trace w) @ [(resolve E [resolved_outDir E options, ''.gitignore''], ''**'')]"
    using existing_outDir_quiet [of w E options] unsupported_writes [of E options w] by blast
  then show "\<exists>ws. writes (trace (snd (getSelfSignedCert E options w))) = writes (trace w) @ ws
            \<and> (\<forall>d. (resolve E [resolved_outDir E options, ''readme.md''], d) \<notin> set ws)"
  proof cases
    case 1
    then show ?thesis by (intro exI [where x = "[]"]) simp
  next
    case 2
    then show ?thesis using gitignore_is_not_readme [of E options]
      by (intro exI [where x = "[(resolve E [resolved_outDir E options, ''.gitignore''], ''**'')]"])
         auto
  qed
qed

text \<open>
  In a world where \<^verbatim>\<open>/home/dev/selfSignedCerts\<close> holds a key and a certificate.
\<close>

theorem cache_hit_reads_only_witness:
  "is_dir (files full_world) (locate openssl_host (resolved_outDir openssl_host no_options))
   \<and> Deno_readTextFile openssl_host
        (resolve openssl_host [resolved_outDir openssl_host no_options, ''selfsigned.key'']) full_world
       = (Inr ''KEY'', log (ReadTextFile ''/home/dev/selfSignedCerts/selfsigned.key'') full_world)
   \<and> Deno_readTextFile openssl_host
        (resolve openssl_host [resolved_outDir openssl_host no_options, ''selfsigned.crt'']) full_world
       = (Inr ''CERT'', log (ReadTextFile ''/home/dev/selfSignedCerts/selfsigned.crt'') full_world)
   \<and> stat_at (files full_world) (locate openssl_host (resolved_outDir openssl_host no_options))
       \<noteq> Inl NotFound
   \<and> writes (trace (snd (getSelfSignedCert openssl_host no_options full_world)))
       = writes (trace full_world)
   \<and> commands (trace (snd (getSelfSignedCert openssl_host no_options full_world)))
       = commands (trace full_world)
   \<and> getSelfSignedCert openssl_host no_options full_world =
     (Inr (Some \<lparr>res_outDir = resolved_outDir openssl_host no_options,
                 res_key = ''KEY'', res_cert = ''CERT'',
                 res_keyFile = resolve openssl_host [resolved_outDir openssl_host no_options, ''selfsigned.key''],
                 res_certFile = resolve openssl_host [resolved_outDir openssl_host no_options, ''selfsigned.crt'']\<rparr>),
      full_world\<lparr>trace := trace full_world @
         [Exists (resolved_outDir openssl_host no_options),
          ReadTextFile (resolve openssl_host [resolved_outDir openssl_host no_options, ''selfsigned.key'']),
          ReadTextFile (resolve openssl_host [resolved_outDir openssl_host no_options, ''selfsigned.crt''])]\<rparr>)
   \<and> (\<exists>ws. writes (trace (snd (getSelfSignedCert openssl_host no_options full_world)))
              = writes (trace full_world) @ ws
            \<and> (\<forall>d. (resolve openssl_host [resolved_outDir openssl_host no_options, ''readme.md''], d)
                     \<notin> set ws))"
proof -
  have h1: "is_dir (files full_world) (locate openssl_host (resolved_outDir openssl_host no_options))"
    by code_simp
  have h2: "Deno_readTextFile openssl_host
        (resolve openssl_host [resolved_outDir openssl_host no_options, ''selfsigned.key'']) full_world
       = (Inr ''KEY'', log (ReadTextFile ''/home/dev/selfSignedCerts/selfsigned.key'') full_world)"
    by code_simp
  have h3: "Deno_readTextFile openssl_host
        (resolve openssl_host [resolved_outDir openssl_host no_options, ''selfsigned.crt'']) full_world
       = (Inr ''CERT'', log (ReadTextFile ''/home/dev/selfSignedCerts/selfsigned.crt'') full_world)"
    by code_simp
  have h4: "stat_at (files full_world) (locate openssl_host (resolved_outDir openssl_host no_options))
       \<noteq> Inl NotFound"
    by code_simp
  note t = cache_hit_reads_only [of full_world openssl_host no_options "''KEY''"
      "log (ReadTextFile ''/home/dev/selfSignedCerts/selfsigned.key'') full_world" "''CERT''"
      "log (ReadTextFile ''/home/dev/selfSignedCerts/selfsigned.crt'') full_world"]
  show ?thesis
    using h1 h2 h3 h4 t by (intro conjI) blast+
qed

text \<open>
  The claim as stated fails when a read fails: in a world where the output
  directory exists and holds a key but no certificate, the call removes the
  directory, which is more than reading the two files.
\<close>

theorem cache_hit_failed_read_removes:
  "is_dir (files half_world) (locate openssl_host (resolved_outDir openssl_host no_options))
   \<and> files (snd (getSelfSignedCert openssl_host no_options half_world)) \<noteq> files half_world
   \<and> files (snd (getSelfSignedCert openssl_host no_options half_world))
       = Some (Dir [(''home'', Dir [(''dev'', Dir [])])])
   \<and> trace (snd (getSelfSignedCert openssl_host no_options half_world))
       = [Exists ''/home/dev/selfSignedCerts'',
          ReadTextFile ''/home/dev/selfSignedCerts/selfsigned.key'',
          ReadTextFile ''/home/dev/selfSignedCerts/selfsigned.crt'',
          Remove ''/home/dev/selfSignedCerts'']"
  by code_simp

subsection \<open>C8: what a successful call returns\<close>

text \<open>
  C8. A call that returns a result returns the resolved output directory (an
  absolute, normalised path), the key file path and the certificate file path,
  which are \<^verbatim>\<open>selfsigned.key\<close> and \<^verbatim>\<open>selfsigned.crt\<close> resolved against that
  directory and lie directly below it, and as key and certificate the text that
  these two files hold when the call returns.
\<close>

theorem result_bundles_paths_and_contents:
  assumes "getSelfSignedCert E options w = (Inr (Some r), w')"
  shows "res_outDir r = resolved_outDir E options
       \<and> res_outDir r = render (locate E (res_outDir r))
       \<and> res_keyFile r = resolve E [res_outDir r, ''selfsigned.key'']
       \<and> res_certFile r = resolve E [res_outDir r, ''selfsigned.crt'']
       \<and> res_keyFile r = render (locate E (res_outDir r) @ [''selfsigned.key''])
       \<and> res_certFile r = render (locate E (res_outDir r) @ [''selfsigned.crt''])
       \<and> stat_at (files w') (locate E (res_keyFile r)) = Inr (File (res_key r))
       \<and> stat_at (files w') (locate E (res_certFile r)) = Inr (File (res_cert r))"
  using generate_success [OF catch_success [OF assms]]
  by (simp add: path_simps resolve_single locate_render_locate resolve_render_child)

text \<open>A generating call for the request with name, directory and days given.\<close>

theorem result_bundles_paths_and_contents_witness:
  "getSelfSignedCert openssl_host dev_options fresh_world =
     (Inr (Some \<lparr>res_outDir = ''/home/dev/tmpcerts'', res_key = ''KEY'', res_cert = ''CERT'',
                 res_keyFile = ''/home/dev/tmpcerts/selfsigned.key'',
                 res_certFile = ''/home/dev/tmpcerts/selfsigned.crt''\<rparr>),
      snd (getSelfSignedCert openssl_host dev_options fresh_world))
   \<and> ''/home/dev/tmpcerts'' = resolved_outDir openssl_host dev_options
   \<and> ''/home/dev/tmpcerts'' = render (locate openssl_host ''/home/dev/tmpcerts'')
   \<and> ''/home/dev/tmpcerts/selfsigned.key''
       = resolve openssl_host [''/home/dev/tmpcerts'', ''selfsigned.key'']
   \<and> ''/home/dev/tmpcerts/selfsigned.crt''
       = resolve openssl_host [''/home/dev/tmpcerts'', ''selfsigned.crt'']
   \<and> ''/home/dev/tmpcerts/selfsigned.key''
       = render (locate openssl_host ''/home/dev/tmpcerts'' @ [''selfsigned.key''])
   \<and> ''/home/dev/tmpcerts/selfsigned.crt''
       = render (locate openssl_host ''/home/dev/tmpcerts'' @ [''selfsigned.crt''])
   \<and> stat_at (files (snd (getSelfSignedCert openssl_host dev_options fresh_world)))
        (locate openssl_host ''/home/dev/tmpcerts/selfsigned.key'') = Inr (File ''KEY'')
   \<and> stat_at (files (snd (getSelfSignedCert openssl_host dev_options fresh_world)))
        (locate openssl_host ''/home/dev/tmpcerts/selfsigned.crt'') = Inr (File ''CERT'')"
proof -
  have "fst (getSelfSignedCert openssl_host dev_options fresh_world) =
     Inr (Some \<lparr>res_outDir = ''/home/dev/tmpcerts'', res_key = ''KEY'', res_cert = ''CERT'',
                 res_keyFile = ''/home/dev/tmpcerts/selfsigned.key'',
                 res_certFile = ''/home/dev/tmpcerts/selfsigned.crt''\<rparr>)"
    by code_simp
  then have h: "getSelfSignedCert openssl_host dev_options fresh_world =
     (Inr (Some \<lparr>res_outDir = ''/home/dev/tmpcerts'', res_key = ''KEY'', res_cert = ''CERT'',
                 res_keyFile = ''/home/dev/tmpcerts/selfsigned.key'',
                 res_certFile = ''/home/dev/tmpcerts/selfsigned.crt''\<rparr>),
      snd (getSelfSignedCert openssl_host dev_options fresh_world))"
    by (simp add: prod_eq_iff)
  note t = result_bundles_paths_and_contents [OF h, unfolded Result.select_convs]
  show ?thesis
    using h t by (intro conjI) blast+
qed

subsection \<open>C9: a failed read removes an output directory that was already there\<close>

text \<open>
  C9. When the resolved output directory already exists as a directory and reading
  the key file or the certificate file fails, the call makes no attempt to create
  anything: it checks the directory, reads, removes the output directory
  recursively, so that nothing is found there afterwards, and throws the error of
  the read that failed.
\<close>

theorem cache_hit_failure_removes_outDir:
  assumes "is_dir (files w) (locate E (resolved_outDir E options))"
    and "(\<exists>e. fst (Deno_readTextFile E (resolve E [resolved_outDir E options, ''selfsigned.key'']) w) = Inl e)
       \<or> (\<exists>e. fst (Deno_readTextFile E (resolve E [resolved_outDir E options, ''selfsigned.crt'']) w) = Inl e)"
  shows "\<exists>e w'. getSelfSignedCert E options w = (Inl e, w')
       \<and> stat_at (files w') (locate E (resolved_outDir E options)) = Inl NotFound
       \<and> (fst (Deno_readTextFile E (resolve E [resolved_outDir E options, ''selfsigned.key'']) w) = Inl e
            \<and> trace w' = trace w @
                 [Exists (resolved_outDir E options),
                  ReadTextFile (resolve E [resolved_outDir E options, ''selfsigned.key'']),
                  Remove (resolved_outDir E options)]
          \<or> fst (Deno_readTextFile E (resolve E [resolved_outDir E options, ''selfsigned.crt'']) w) = Inl e
            \<and> trace w' = trace w @
                 [Exists (resolved_outDir E options),
                  ReadTextFile (resolve E [resolved_outDir E options, ''selfsigned.key'']),
                  ReadTextFile (resolve E [resolved_outDir E options, ''selfsigned.crt'']),
                  Remove (resolved_outDir E options)])"
proof -
  let ?D = "locate E (or_else (opt_outDir options) ''selfSignedCerts'')"
  let ?o = "resolved_outDir E options"
  let ?k = "resolve E [resolved_outDir E options, ''selfsigned.key'']"
  let ?c = "resolve E [resolved_outDir E options, ''selfsigned.crt'']"
  obtain es where es: "stat_at (files w) ?D = Inr (Dir es)"
    using assms(1) by (auto simp: is_dir_def locate_resolve split: sum.splits node.splits)
  obtain t' where t': "remove_at (files w) ?D = Inr t'" "stat_at t' ?D = Inl NotFound"
    using remove_at_existing [OF es] by blast
  have short: "fst (Deno_readTextFile E ?k w) = Inl e \<Longrightarrow>
      getSelfSignedCert E options w =
        (Inl e, w\<lparr>files := t', trace := trace w @ [Exists ?o, ReadTextFile ?k, Remove ?o]\<rparr>)" for e
    using es t'
    by (auto simp: getSelfSignedCert_def generateOutDirContents_def Let_def host_defs path_simps
          split: sum.splits node.splits)
  have long: "fst (Deno_readTextFile E ?k w) = Inr key \<Longrightarrow> fst (Deno_readTextFile E ?c w) = Inl e \<Longrightarrow>
      getSelfSignedCert E options w =
        (Inl e, w\<lparr>files := t', trace := trace w @
           [Exists ?o, ReadTextFile ?k, ReadTextFile ?c, Remove ?o]\<rparr>)" for key e
    using es t'
    by (auto simp: getSelfSignedCert_def generateOutDirContents_def Let_def host_defs path_simps
          split: sum.splits node.splits)
  show ?thesis
  proof (cases "fst (Deno_readTextFile E ?k w)")
    case (Inl e)
    show ?thesis using short [OF Inl] Inl t'(2)
      by (intro exI [where x = e] exI [where x = "w\<lparr>files := t', trace := trace w @ [Exists ?o, ReadTextFile ?k, Remove ?o]\<rparr>"])
         (simp add: locate_resolve)
  next
    case (Inr key)
    then obtain e where e: "fst (Deno_readTextFile E ?c w) = Inl e"
      using assms(2) by auto
    show ?thesis using long [OF Inr e] e t'(2)
      by (intro exI [where x = e] exI [where x = "w\<lparr>files := t', trace := trace w @ [Exists ?o, ReadTextFile ?k, ReadTextFile ?c, Remove ?o]\<rparr>"])
         (simp add: locate_resolve)
  qed
qed

text \<open>
  In a world where the output directory holds a key and no certificate: the
  directory, with the key in it, is gone after the call.
\<close>

theorem cache_hit_failure_removes_outDir_witness:
  "is_dir (files half_world) (locate linux_host (resolved_outDir linux_host no_options))
   \<and> fst (Deno_readTextFile linux_host
            (resolve linux_host [resolved_outDir linux_host no_options, ''selfsigned.crt'']) half_world)
       = Inl NotFound
   \<and> (\<exists>e w'. getSelfSignedCert linux_host no_options half_world = (Inl e, w')
       \<and> stat_at (files w') (locate linux_host (resolved_outDir linux_host no_options)) = Inl NotFound
       \<and> (fst (Deno_readTextFile linux_host
                  (resolve linux_host [resolved_outDir linux_host no_options, ''selfsigned.key'']) half_world) = Inl e
            \<and> trace w' = trace half_world @
                 [Exists (resolved_outDir linux_host no_options),
                  ReadTextFile (resolve linux_host [resolved_outDir linux_host no_options, ''selfsigned.key'']),
                  Remove (resolved_outDir linux_host no_options)]
          \<or> fst (Deno_readTextFile linux_host
                  (resolve linux_host [resolved_outDir linux_host no_options, ''selfsigned.crt'']) half_world) = Inl e
            \<and> trace w' = trace half_world @
                 [Exists (resolved_outDir linux_host no_options),
                  ReadTextFile (resolve linux_host [resolved_outDir linux_host no_options, ''selfsigned.key'']),
                  ReadTextFile (resolve linux_host [resolved_outDir linux_host no_options, ''selfsigned.crt'']),
                  Remove (resolved_outDir linux_host no_options)]))"
proof -
  have h1: "is_dir (files half_world) (locate linux_host (resolved_outDir linux_host no_options))"
    by code_simp
  have h2: "fst (Deno_readTextFile linux_host
            (resolve linux_host [resolved_outDir linux_host no_options, ''selfsigned.crt'']) half_world)
       = Inl NotFound"
    by code_simp
  have h3: "(\<exists>e. fst (Deno_readTextFile linux_host
            (resolve linux_host [resolved_outDir linux_host no_options, ''selfsigned.key'']) half_world) = Inl e)
       \<or> (\<exists>e. fst (Deno_readTextFile linux_host
            (resolve linux_host [resolved_outDir linux_host no_options, ''selfsigned.crt'']) half_world) = Inl e)"
    using h2 by blast
  show ?thesis
    using h1 h2 cache_hit_failure_removes_outDir [OF h1 h3] by (intro conjI)
qed

subsection \<open>C10: an empty \<^verbatim>\<open>outDir\<close> is defaulted, an empty \<^verbatim>\<open>name\<close> is not\<close>

text \<open>
  C10. With \<^verbatim>\<open>outDir\<close> given as the empty string the output directory is
  \<^verbatim>\<open>selfSignedCerts\<close> below the working directory, and the call behaves as
  the call without \<^verbatim>\<open>outDir\<close>. With \<^verbatim>\<open>name\<close> given as the empty string, on
  the generation path of the supported platform, the tool's argument after
  \<^verbatim>\<open>-subj\<close> is \<^verbatim>\<open>/CN=\<close>.
\<close>

theorem empty_outDir_defaulted_empty_name_kept:
  assumes "os E = ''darwin''"
    and "stat_at (files w) (locate E (resolved_outDir E options)) = Inl NotFound"
  shows "resolved_outDir E (options\<lparr>opt_outDir := Some []\<rparr>)
           = render (locate E (Deno_cwd E) @ [''selfSignedCerts''])
       \<and> getSelfSignedCert E (options\<lparr>opt_outDir := Some []\<rparr>) w
           = getSelfSignedCert E (options\<lparr>opt_outDir := None\<rparr>) w
       \<and> (\<exists>args. commands (trace (snd (getSelfSignedCert E (options\<lparr>opt_name := Some []\<rparr>) w)))
                  = commands (trace w) @ [(''openssl'', args)]
           \<and> args ! 10 = ''-subj'' \<and> args ! 11 = ''/CN='')"
proof -
  have l: "locate E ''selfSignedCerts'' = locate E (Deno_cwd E) @ [''selfSignedCerts'']"
    by (rule locate_relative) (simp add: clean_def)
  have a: "resolved_outDir E (options\<lparr>opt_outDir := Some []\<rparr>)
           = render (locate E (Deno_cwd E) @ [''selfSignedCerts''])"
    by (simp add: or_else_def resolve_single l)
  have b: "getSelfSignedCert E (options\<lparr>opt_outDir := Some []\<rparr>) w
           = getSelfSignedCert E (options\<lparr>opt_outDir := None\<rparr>) w"
    by (rule empty_outDir_is_absent)
  have nf: "stat_at (files w) (locate E (resolved_outDir E (options\<lparr>opt_name := Some []\<rparr>)))
              = Inl NotFound"
    using assms(2) by simp
  have c: "\<exists>args. commands (trace (snd (getSelfSignedCert E (options\<lparr>opt_name := Some []\<rparr>) w)))
                  = commands (trace w) @ [(''openssl'', args)]
           \<and> args ! 10 = ''-subj'' \<and> args ! 11 = ''/CN=''"
    using generation_commands [OF assms(1) nf] by (simp add: default_to_def)
  show ?thesis using a b c by (intro conjI)
qed

text \<open>On a macOS host with the working directory \<^verbatim>\<open>/home/dev\<close>.\<close>

theorem empty_outDir_defaulted_empty_name_kept_witness:
  "os openssl_host = ''darwin''
   \<and> stat_at (files fresh_world) (locate openssl_host (resolved_outDir openssl_host no_options))
       = Inl NotFound
   \<and> resolved_outDir openssl_host (no_options\<lparr>opt_outDir := Some []\<rparr>)
           = render (locate openssl_host (Deno_cwd openssl_host) @ [''selfSignedCerts''])
   \<and> render (locate openssl_host (Deno_cwd openssl_host) @ [''selfSignedCerts''])
           = ''/home/dev/selfSignedCerts''
   \<and> getSelfSignedCert openssl_host (no_options\<lparr>opt_outDir := Some []\<rparr>) fresh_world
           = getSelfSignedCert openssl_host (no_options\<lparr>opt_outDir := None\<rparr>) fresh_world
   \<and> (\<exists>args. commands (trace (snd (getSelfSignedCert openssl_host
                                      (no_options\<lparr>opt_name := Some []\<rparr>) fresh_world)))
                  = commands (trace fresh_world) @ [(''openssl'', args)]
           \<and> args ! 10 = ''-subj'' \<and> args ! 11 = ''/CN='')"
proof -
  have h1: "os openssl_host = ''darwin''"
    by (simp add: openssl_host_def)
  have h2: "stat_at (files fresh_world) (locate openssl_host (resolved_outDir openssl_host no_options))
      = Inl NotFound"
    by code_simp
  have p: "render (locate openssl_host (Deno_cwd openssl_host) @ [''selfSignedCerts''])
           = ''/home/dev/selfSignedCerts''"
    by code_simp
  show ?thesis
    using h1 h2 p empty_outDir_defaulted_empty_name_kept [OF h1 h2] by (intro conjI) blast+
qed

end
